theory Spec2Isabelle
  imports Main "HOL-Library.Word"
begin

unbundle bit_operations_syntax

section \<open>Python values: exceptions, bytes, hexadecimal text\<close>

text \<open>
  The header store of \<^verbatim>\<open>electrum/blockchain.py\<close> is written in Python. Integers are
  unbounded (\<^typ>\<open>int\<close>), \<^verbatim>\<open>bytes\<close> are lists of 8-bit words, \<^verbatim>\<open>str\<close> is
  \<^typ>\<open>string\<close>. A raised exception is the left summand of the result; the constructor
  records the Python class. All of them are subclasses of \<^verbatim>\<open>Exception\<close>, the class
  caught by \<^verbatim>\<open>except Exception\<close>.
\<close>

datatype error =
    Exception
  | TypeError
  | ValueError
  | KeyError
  | IndexError
  | AttributeError
  | AssertionError
  | OverflowError
  | ZeroDivisionError
  | OSError
  | UnboundLocalError
  | MissingHeader int

type_synonym byte = "8 word"

text \<open>Sequencing: the second computation runs only if the first one did not raise.\<close>

definition ebind :: "error + 'a \<Rightarrow> ('a \<Rightarrow> error + 'b) \<Rightarrow> error + 'b" where
  "ebind m f = (case m of Inl e \<Rightarrow> Inl e | Inr x \<Rightarrow> f x)"

text \<open>The digits printed by \<^verbatim>\<open>'%x'\<close> and by \<^verbatim>\<open>bytes.hex()\<close>.\<close>

definition hexdigit :: "nat \<Rightarrow> char" where
  "hexdigit d = ''0123456789abcdef'' ! d"

text \<open>The value of one hexadecimal digit, upper or lower case, as \<^verbatim>\<open>bytes.fromhex\<close>
  and \<^verbatim>\<open>int(s, 16)\<close> read it.\<close>

definition hexval :: "char \<Rightarrow> nat option" where
  "hexval c =
     (let n = of_char c :: nat in
      if 48 \<le> n \<and> n \<le> 57 then Some (n - 48)
      else if 97 \<le> n \<and> n \<le> 102 then Some (n - 87)
      else if 65 \<le> n \<and> n \<le> 70 then Some (n - 55)
      else None)"

text \<open>\<^verbatim>\<open>'%x' % n\<close> for \<open>n \<ge> 0\<close>: the digits of \<open>n\<close>, most significant first, at
  least one.\<close>

fun hex_of_nat :: "nat \<Rightarrow> string" where
  "hex_of_nat n =
     (if n < 16 then [hexdigit n] else hex_of_nat (n div 16) @ [hexdigit (n mod 16)])"

declare hex_of_nat.simps [simp del]

text \<open>\<^verbatim>\<open>'%064x' % t\<close>: zero padding to a width of 64 characters, the sign (if any) in
  front of the padding and counted in the width; a longer number is not cut.\<close>

definition fmt_064x :: "int \<Rightarrow> string" where
  "fmt_064x t =
     (let ds = hex_of_nat (nat \<bar>t\<bar>) in
      if t < 0 then CHR ''-'' # replicate (63 - length ds) CHR ''0'' @ ds
      else replicate (64 - length ds) CHR ''0'' @ ds)"

text \<open>\<^verbatim>\<open>bfh = bytes.fromhex\<close> (imported from \<^verbatim>\<open>util\<close>): ASCII white space is skipped
  in front of each byte, every byte is two hexadecimal digits, anything else raises
  \<^verbatim>\<open>ValueError\<close>.\<close>

definition is_space :: "char \<Rightarrow> bool" where
  "is_space c = (of_char c \<in> {9, 10, 11, 12, 13, 32 :: nat})"

fun bfh :: "string \<Rightarrow> error + byte list" where
  "bfh [] = Inr []"
| "bfh [c] = (if is_space c then Inr [] else Inl ValueError)"
| "bfh (c # d # cs) =
     (if is_space c then bfh (d # cs)
      else case (hexval c, hexval d) of
             (Some a, Some b) \<Rightarrow>
               (case bfh cs of Inl e \<Rightarrow> Inl e | Inr bs \<Rightarrow> Inr (of_nat (16 * a + b) # bs))
           | _ \<Rightarrow> Inl ValueError)"

text \<open>\<^verbatim>\<open>bh2u = bytes.hex\<close>: two lower-case digits for every byte.\<close>

fun bh2u :: "byte list \<Rightarrow> string" where
  "bh2u [] = []"
| "bh2u (b # bs) = hexdigit (unat b div 16) # hexdigit (unat b mod 16) # bh2u bs"

text \<open>\<^verbatim>\<open>int.from_bytes(bs, byteorder='big')\<close>.\<close>

definition int_from_bytes_big :: "byte list \<Rightarrow> int" where
  "int_from_bytes_big bs = foldl (\<lambda>acc b. acc * 256 + uint b) 0 bs"

section \<open>Target math: the compact encoding\<close>

text \<open>
  \<^verbatim>\<open>
  def bits_to_target(cls, bits: int) -> int:
      bitsN = (bits >> 24) & 0xff
      if not (0x03 <= bitsN <= 0x1f):
          raise Exception("First part of bits should be in [0x03, 0x1f]")
      bitsBase = bits & 0xffffff
      if not (0x8000 <= bitsBase <= 0x7fffff):
          raise Exception("Second part of bits should be in [0x8000, 0x7fffff]")
      return bitsBase << (8 * (bitsN-3))
  \<close>
\<close>

definition bits_to_target :: "int \<Rightarrow> error + int" where
  "bits_to_target bits =
     (let bitsN = drop_bit 24 bits AND 0xff in
      if \<not> (0x03 \<le> bitsN \<and> bitsN \<le> 0x1f) then Inl Exception
      else
        let bitsBase = bits AND 0xffffff in
        if \<not> (0x8000 \<le> bitsBase \<and> bitsBase \<le> 0x7fffff) then Inl Exception
        else Inr (push_bit (nat (8 * (bitsN - 3))) bitsBase))"

text \<open>
  \<^verbatim>\<open>
  def target_to_bits(cls, target: int) -> int:
      c = ("%064x" % target)[2:]
      while c[:2] == '00' and len(c) > 6:
          c = c[2:]
      bitsN, bitsBase = len(c) // 2, int.from_bytes(bfh(c[:6]), byteorder='big')
      if bitsBase >= 0x800000:
          bitsN += 1
          bitsBase >>= 8
      return bitsN << 24 | bitsBase
  \<close>
  The \<^verbatim>\<open>while\<close> loop is \<open>strip00\<close>; it ends because the text gets shorter.
\<close>

function strip00 :: "string \<Rightarrow> string" where
  "strip00 c = (if take 2 c = ''00'' \<and> length c > 6 then strip00 (drop 2 c) else c)"
  by pat_completeness auto
termination
  by (relation "measure length") auto

declare strip00.simps [simp del]

definition target_to_bits :: "int \<Rightarrow> error + int" where
  "target_to_bits target =
     (let c = strip00 (drop 2 (fmt_064x target)) in
      case bfh (take 6 c) of
        Inl e \<Rightarrow> Inl e
      | Inr bs \<Rightarrow>
          let bitsN = int (length c) div 2;
              bitsBase = int_from_bytes_big bs
          in if bitsBase \<ge> 0x800000
             then Inr (push_bit 24 (bitsN + 1) OR drop_bit 8 bitsBase)
             else Inr (push_bit 24 bitsN OR bitsBase))"

text \<open>The \<open>w\<close> low hexadecimal digits of \<open>n\<close>, most significant first: what
  \<^verbatim>\<open>'%0wx' % n\<close> prints for \<open>0 \<le> n < 16 ^ w\<close>. It is used to reason about
  \<open>fmt_064x\<close> only; no source function corresponds to it.\<close>

fun hexs :: "nat \<Rightarrow> nat \<Rightarrow> string" where
  "hexs 0 n = []"
| "hexs (Suc w) n = hexs w (n div 16) @ [hexdigit (n mod 16)]"

section \<open>Network constants and the size of a header\<close>

text \<open>
  The module reads \<^verbatim>\<open>constants.net\<close> and imports \<^verbatim>\<open>get_header_size\<close>,
  \<^verbatim>\<open>is_post_equihash_fork\<close>, \<^verbatim>\<open>HDR_LEN\<close> and \<^verbatim>\<open>HDR_LEN_FORK\<close> from
  \<^verbatim>\<open>bitcoin.py\<close>; neither file is part of the sources at hand. Their constants are the
  fields of a record that every function takes as a parameter, so that each result holds
  for whatever values the network defines. A checkpoint entry is a Python tuple; the module
  unpacks it once as a pair and once as a triple.
\<close>

datatype checkpoint = CP2 string int | CP3 string int "string list"

record net =
  EQUIHASH_FORK_HEIGHT :: int
  HDR_LEN :: nat
  HDR_LEN_FORK :: nat
  TESTNET :: bool
  GENESIS :: string
  CHECKPOINTS :: "checkpoint list"
  max_checkpoint :: int

text \<open>Modelled from the spec: \<^verbatim>\<open>is_post_equihash_fork\<close> of \<^verbatim>\<open>bitcoin.py\<close>, which is not
  in the sources. The spec: ``The switch is driven solely by
  \<^verbatim>\<open>height \<ge> EQUIHASH_FORK_HEIGHT\<close>''.\<close>

definition is_post_equihash_fork :: "net \<Rightarrow> int \<Rightarrow> bool" where
  "is_post_equihash_fork n height = (EQUIHASH_FORK_HEIGHT n \<le> height)"

text \<open>Modelled from the spec: \<^verbatim>\<open>get_header_size\<close> of \<^verbatim>\<open>bitcoin.py\<close>, which is not in the
  sources. The spec: ``The on-disk size depends on height: \<^verbatim>\<open>HDR_LEN\<close> (pre-Equihash-fork)
  or \<^verbatim>\<open>HDR_LEN_FORK\<close> (post-fork)''.\<close>

definition get_header_size :: "net \<Rightarrow> int \<Rightarrow> nat" where
  "get_header_size n height = (if is_post_equihash_fork n height then HDR_LEN_FORK n else HDR_LEN n)"

section \<open>Byte offsets in a header file\<close>

text \<open>
  \<^verbatim>\<open>
  def get_offset(self, checkpoint, height):
      # Pre-Fork
      prb = 0
      if not is_post_equihash_fork(height):
          prb = height - checkpoint
      else:
          prb = constants.net.EQUIHASH_FORK_HEIGHT
      # Equihash Fork
      peb = 0
      if is_post_equihash_fork(height):
          peb = height - max(checkpoint, constants.net.EQUIHASH_FORK_HEIGHT)
      offset = (prb * HDR_LEN) \
          + (peb * get_header_size(constants.net.EQUIHASH_FORK_HEIGHT))
      return offset
  \<close>
\<close>

definition get_offset :: "net \<Rightarrow> int \<Rightarrow> int \<Rightarrow> int" where
  "get_offset n checkpoint height =
     (let prb = (if \<not> is_post_equihash_fork n height then height - checkpoint
                 else EQUIHASH_FORK_HEIGHT n);
          peb = (if is_post_equihash_fork n height
                 then height - max checkpoint (EQUIHASH_FORK_HEIGHT n) else 0)
      in prb * int (HDR_LEN n) + peb * int (get_header_size n (EQUIHASH_FORK_HEIGHT n)))"

text \<open>
  The offset as the specification words it, for comparison with \<open>get_offset\<close>:
  \<open>pre = min(height, EQUIHASH_FORK_HEIGHT) - checkpoint\<close> clamped at 0,
  \<open>post = max(0, height - max(checkpoint, EQUIHASH_FORK_HEIGHT))\<close>,
  \<open>offset = pre \<cdot> HDR_LEN + post \<cdot> HDR_LEN_FORK\<close>.
\<close>

definition offset_spec :: "net \<Rightarrow> int \<Rightarrow> int \<Rightarrow> int" where
  "offset_spec n checkpoint height =
     (let pre = max 0 (min height (EQUIHASH_FORK_HEIGHT n) - checkpoint);
          post = max 0 (height - max checkpoint (EQUIHASH_FORK_HEIGHT n))
      in pre * int (HDR_LEN n) + post * int (HDR_LEN_FORK n))"

section \<open>Headers and their codec\<close>

text \<open>
  A header is a Python \<^verbatim>\<open>dict\<close> with the keys below. The three scalars are Python
  integers (\<open>deserialize_header\<close> reads each from 4 bytes, so it gives numbers below
  \<open>2 ^ 32\<close>; a dictionary built elsewhere may hold any integer); the hashes are kept as
  text, as in the dictionary, whether or not the text is hexadecimal.
  \<^verbatim>\<open>prev_block_hash\<close> may be missing: \<open>hash_header\<close> tests for it.
\<close>

record header =
  version :: int
  prev_block_hash :: "string option"
  merkle_root :: string
  reserved_hash :: string
  timestamp :: int
  bits :: int
  nonce :: string
  sol_size :: string
  solution :: string
  block_height :: int

text \<open>Modelled from the spec: the hexadecimal helpers \<^verbatim>\<open>rev_hex\<close>, \<^verbatim>\<open>int_to_hex\<close> and
  \<^verbatim>\<open>hash_encode\<close> of \<^verbatim>\<open>bitcoin.py\<close>, which is not in the sources. The spec: scalars are
  serialized little-endian, and a hash is ``presented as reversed-hex (display order)''.
  \<open>rev_hex s\<close> is \<^verbatim>\<open>bh2u(bfh(s)[::-1])\<close>, \<open>hash_encode x\<close> is \<^verbatim>\<open>bh2u(x[::-1])\<close>,
  \<open>int_to_hex i n\<close> is the little-endian hexadecimal text of \<open>i\<close> on \<open>n\<close> bytes
  (two's complement for a negative \<open>i\<close>, \<^verbatim>\<open>OverflowError\<close> out of range).\<close>

definition rev_hex :: "string \<Rightarrow> error + string" where
  "rev_hex s = ebind (bfh s) (\<lambda>bs. Inr (bh2u (rev bs)))"

definition hash_encode :: "byte list \<Rightarrow> string" where
  "hash_encode x = bh2u (rev x)"

definition int_to_hex :: "int \<Rightarrow> nat \<Rightarrow> error + string" where
  "int_to_hex i len =
     (let range_size = 256 ^ len in
      if i < - (range_size div 2) \<or> range_size \<le> i then Inl OverflowError
      else
        let s = hex_of_nat (nat (if i < 0 then range_size + i else i))
        in rev_hex (replicate (2 * len - length s) CHR ''0'' @ s))"

text \<open>\<^verbatim>\<open>int('0x' + s, 16)\<close> for a text \<open>s\<close> of hexadecimal digits, which is all the module
  passes (the output of \<open>bh2u\<close>); an empty text or another character raises
  \<^verbatim>\<open>ValueError\<close>.\<close>

definition int_of_hex :: "string \<Rightarrow> error + int" where
  "int_of_hex s =
     (if s = [] \<or> (\<exists>c \<in> set s. hexval c = None) then Inl ValueError
      else Inr (int (foldl (\<lambda>a c. 16 * a + (case hexval c of Some d \<Rightarrow> d | None \<Rightarrow> 0)) 0 s)))"

text \<open>The slice \<^verbatim>\<open>s[a:b]\<close> for \<open>0 \<le> a \<le> b\<close>.\<close>

definition py_slice :: "'a list \<Rightarrow> nat \<Rightarrow> nat \<Rightarrow> 'a list" where
  "py_slice s a b = take (b - a) (drop a s)"

text \<open>
  \<^verbatim>\<open>
  def serialize_header(res):
      s = int_to_hex(res.get('version'), 4) \
          + rev_hex(res.get('prev_block_hash')) \
          + rev_hex(res.get('merkle_root')) \
          + rev_hex(res.get('reserved_hash')) \
          + int_to_hex(int(res.get('timestamp')), 4) \
          + int_to_hex(int(res.get('bits')), 4) \
          + rev_hex(res.get('nonce')) \
          + rev_hex(res.get('sol_size')) \
          + rev_hex(res.get('solution'))
      return s
  \<close>
  \<^verbatim>\<open>rev_hex(None)\<close> raises \<^verbatim>\<open>TypeError\<close>; \<^verbatim>\<open>int(i)\<close> of an integer is that integer.
\<close>

definition serialize_header :: "header \<Rightarrow> error + string" where
  "serialize_header res =
     ebind (int_to_hex (version res) 4) (\<lambda>s1.
     ebind (case prev_block_hash res of None \<Rightarrow> Inl TypeError | Some p \<Rightarrow> rev_hex p) (\<lambda>s2.
     ebind (rev_hex (merkle_root res)) (\<lambda>s3.
     ebind (rev_hex (reserved_hash res)) (\<lambda>s4.
     ebind (int_to_hex (timestamp res) 4) (\<lambda>s5.
     ebind (int_to_hex (bits res) 4) (\<lambda>s6.
     ebind (rev_hex (nonce res)) (\<lambda>s7.
     ebind (rev_hex (sol_size res)) (\<lambda>s8.
     ebind (rev_hex (solution res)) (\<lambda>s9.
     Inr (s1 @ s2 @ s3 @ s4 @ s5 @ s6 @ s7 @ s8 @ s9))))))))))"

text \<open>
  \<^verbatim>\<open>
  def deserialize_header(s, height):
      if not s:
          raise Exception('Invalid header: {}'.format(s))
      if len(s) != get_header_size(height):
          raise Exception('Invalid header length: {}'.format(len(s)))
      hex_to_int = lambda s: int('0x' + bh2u(s[::-1]), 16)
      h = {}
      h['version'] = hex_to_int(s[0:4])
      h['prev_block_hash'] = hash_encode(s[4:36])
      h['merkle_root'] = hash_encode(s[36:68])
      h['reserved_hash'] = hash_encode(s[68:100])
      h['timestamp'] = hex_to_int(s[100:104])
      h['bits'] = hex_to_int(s[104:108])
      h['nonce'] = hash_encode(s[108:140])
      h['sol_size'] = hash_encode(s[140:143])
      h['solution'] = hash_encode(s[143:])
      h['block_height'] = height
      return h
  \<close>
\<close>

definition hex_to_int :: "byte list \<Rightarrow> error + int" where
  "hex_to_int s = int_of_hex (bh2u (rev s))"

definition deserialize_header :: "net \<Rightarrow> byte list \<Rightarrow> int \<Rightarrow> error + header" where
  "deserialize_header n s height =
     (if s = [] then Inl Exception
      else if length s \<noteq> get_header_size n height then Inl Exception
      else
        ebind (hex_to_int (py_slice s 0 4)) (\<lambda>v.
        ebind (hex_to_int (py_slice s 100 104)) (\<lambda>t.
        ebind (hex_to_int (py_slice s 104 108)) (\<lambda>b.
        Inr \<lparr>version = v,
             prev_block_hash = Some (hash_encode (py_slice s 4 36)),
             merkle_root = hash_encode (py_slice s 36 68),
             reserved_hash = hash_encode (py_slice s 68 100),
             timestamp = t,
             bits = b,
             nonce = hash_encode (py_slice s 108 140),
             sol_size = hash_encode (py_slice s 140 143),
             solution = hash_encode (drop 143 s),
             block_height = height\<rparr>))))"

text \<open>
  \<^verbatim>\<open>
  def hash_header(header: dict) -> str:
      if header is None:
          return '0' * 64
      if header.get('prev_block_hash') is None:
          header['prev_block_hash'] = '00'*32
      return hash_encode(sha256d(bfh(serialize_header(header))))
  \<close>
  The function may write to the dictionary it is given, so the model returns the header
  too. \<^verbatim>\<open>sha256d\<close> comes from \<^verbatim>\<open>crypto.py\<close>; it is a parameter here.
\<close>

definition hash_header ::
  "(byte list \<Rightarrow> byte list) \<Rightarrow> header option \<Rightarrow> error + string \<times> header option" where
  "hash_header sha256d hdr =
     (case hdr of
        None \<Rightarrow> Inr (replicate 64 CHR ''0'', None)
      | Some h \<Rightarrow>
          let h' = (if prev_block_hash h = None
                    then h\<lparr>prev_block_hash := Some (concat (replicate 32 ''00''))\<rparr> else h)
          in ebind (serialize_header h') (\<lambda>s.
             ebind (bfh s) (\<lambda>raw.
             Inr (hash_encode (sha256d raw), Some h'))))"

section \<open>A chain and its header file\<close>

text \<open>
  A \<^verbatim>\<open>Blockchain\<close> object: the height of its first header, its parent chain, the cached
  number of headers \<^verbatim>\<open>_size\<close>, and the content of the file at \<^verbatim>\<open>path()\<close>
  (\<open>None\<close> when no such file exists). The fields that only name the file
  (\<^verbatim>\<open>_forkpoint_hash\<close>, \<^verbatim>\<open>_prev_hash\<close>, \<^verbatim>\<open>config\<close>) and the lock are left out.
\<close>

datatype blockchain =
  Blockchain (forkpoint: int) (parent: "blockchain option") (chain_size: int)
    (file_content: "byte list option")

text \<open>
  \<^verbatim>\<open>
  def height(self) -> int:
      return self.forkpoint + self.size() - 1
  \<close>
\<close>

definition chain_height :: "blockchain \<Rightarrow> int" where
  "chain_height c = forkpoint c + chain_size c - 1"

text \<open>
  \<^verbatim>\<open>
  def read_header(self, height: int) -> Optional[dict]:
      if height < 0:
          return
      if height < self.forkpoint:
          return self.parent().read_header(height)
      if height > self.height():
          return
      offset = self.get_offset(self.forkpoint, height)
      header_size = get_header_size(height)
      name = self.path()
      if os.path.exists(name):
          with open(name, 'rb') as f:
              f.seek(offset)
              h = f.read(header_size)
              if len(h) < header_size:
                  raise Exception('Expected to read a full header. ...')
      elif not os.path.exists(util.get_headers_dir(self.config)):
          raise Exception('Electrum datadir does not exist. ...')
      else:
          raise Exception('Cannot find headers file but datadir is there. ...')
      if h == bytes([0])*header_size:
          return None
      return deserialize_header(h, height)
  \<close>
  \<^verbatim>\<open>self.parent\<close> is an attribute that holds a \<^verbatim>\<open>Blockchain\<close> object or \<^verbatim>\<open>None\<close>
  (everywhere else the module writes \<^verbatim>\<open>self.parent.height()\<close>,
  \<^verbatim>\<open>self.parent is None\<close>, \<^verbatim>\<open>chain.parent\<close>), and the class defines no
  \<^verbatim>\<open>__call__\<close>: the call \<^verbatim>\<open>self.parent()\<close> raises \<^verbatim>\<open>TypeError\<close> whatever the parent
  is. A seek to a negative position raises \<^verbatim>\<open>OSError\<close>; a read past the end of the file
  returns fewer bytes.
\<close>

definition read_header :: "net \<Rightarrow> blockchain \<Rightarrow> int \<Rightarrow> error + header option" where
  "read_header n c height =
     (if height < 0 then Inr None
      else if height < forkpoint c then Inl TypeError
      else if height > chain_height c then Inr None
      else
        let offset = get_offset n (forkpoint c) height;
            header_size = get_header_size n height
        in case file_content c of
             None \<Rightarrow> Inl Exception
           | Some content \<Rightarrow>
               if offset < 0 then Inl OSError
               else
                 let h = take header_size (drop (nat offset) content)
                 in if length h < header_size then Inl Exception
                    else if h = replicate header_size 0 then Inr None
                    else ebind (deserialize_header n h height) (\<lambda>hd. Inr (Some hd)))"

text \<open>\<^verbatim>\<open>xs[i]\<close> on a Python list: a negative index counts from the end.\<close>

definition py_index :: "'a list \<Rightarrow> int \<Rightarrow> error + 'a" where
  "py_index xs i =
     (let len = int (length xs); j = (if i < 0 then len + i else i)
      in if 0 \<le> j \<and> j < len then Inr (xs ! nat j) else Inl IndexError)"

definition CHUNK_LEN :: int where
  "CHUNK_LEN = 200"

definition POW_AVERAGING_WINDOW :: int where
  "POW_AVERAGING_WINDOW = 17"

definition POW_MEDIAN_BLOCK_SPAN :: int where
  "POW_MEDIAN_BLOCK_SPAN = 11"

definition TARGET_CALC_BLOCKS :: int where
  "TARGET_CALC_BLOCKS = POW_AVERAGING_WINDOW + POW_MEDIAN_BLOCK_SPAN"

text \<open>
  \<^verbatim>\<open>
  def get_hash(self, height: int) -> str:
      def is_height_checkpoint():
          within_cp_range = height <= constants.net.max_checkpoint()
          at_chunk_boundary = (height+1) % 200 == 0
          return within_cp_range and at_chunk_boundary
      if height == -1:
          return '0000000000000000000000000000000000000000000000000000000000000000'
      elif height == 0:
          return constants.net.GENESIS
      elif is_height_checkpoint():
          index = height // 200
          h, t = self.checkpoints[index]
          return h
      elif height < len(self.checkpoints) * CHUNK_LEN - TARGET_CALC_BLOCKS:
          assert (height+1) % CHUNK_LEN == 0, height
          index = height // CHUNK_LEN
          h, t, extra_headers = self.checkpoints[index]
          return h
      else:
          header = self.read_header(height)
          if header is None:
              raise MissingHeader(height)
          return hash_header(header)
  \<close>
  Unpacking a tuple of the wrong length raises \<^verbatim>\<open>ValueError\<close>.
\<close>

definition is_height_checkpoint :: "net \<Rightarrow> int \<Rightarrow> bool" where
  "is_height_checkpoint n height = (height \<le> max_checkpoint n \<and> (height + 1) mod 200 = 0)"

definition get_hash ::
  "(byte list \<Rightarrow> byte list) \<Rightarrow> net \<Rightarrow> blockchain \<Rightarrow> int \<Rightarrow> error + string" where
  "get_hash sha256d n c height =
     (if height = - 1 then Inr (replicate 64 CHR ''0'')
      else if height = 0 then Inr (GENESIS n)
      else if is_height_checkpoint n height then
        ebind (py_index (CHECKPOINTS n) (height div 200)) (\<lambda>cp.
          case cp of CP2 h t \<Rightarrow> Inr h | CP3 h t extra_headers \<Rightarrow> Inl ValueError)
      else if height < int (length (CHECKPOINTS n)) * CHUNK_LEN - TARGET_CALC_BLOCKS then
        if (height + 1) mod CHUNK_LEN \<noteq> 0 then Inl AssertionError
        else
          ebind (py_index (CHECKPOINTS n) (height div CHUNK_LEN)) (\<lambda>cp.
            case cp of CP3 h t extra_headers \<Rightarrow> Inr h | CP2 h t \<Rightarrow> Inl ValueError)
      else
        ebind (read_header n c height) (\<lambda>hdr.
          case hdr of
            None \<Rightarrow> Inl (MissingHeader height)
          | Some h \<Rightarrow> ebind (hash_header sha256d (Some h)) (\<lambda>r. Inr (fst r))))"

text \<open>
  \<^verbatim>\<open>
  def check_hash(self, height: int, header_hash: str) -> bool:
      assert isinstance(header_hash, str) and len(header_hash) == 64, header_hash  # hex
      try:
          return header_hash == self.get_hash(height)
      except Exception:
          return False
  \<close>
  Every constructor of \<open>error\<close> is a subclass of \<^verbatim>\<open>Exception\<close>, so the handler catches
  whatever \<open>get_hash\<close> raises. The assertion is outside the \<^verbatim>\<open>try\<close>.
\<close>

definition check_hash ::
  "(byte list \<Rightarrow> byte list) \<Rightarrow> net \<Rightarrow> blockchain \<Rightarrow> int \<Rightarrow> string \<Rightarrow> error + bool" where
  "check_hash sha256d n c height header_hash =
     (if length header_hash \<noteq> 64 then Inl AssertionError
      else case get_hash sha256d n c height of
             Inl e \<Rightarrow> Inr False
           | Inr h \<Rightarrow> Inr (header_hash = h))"

text \<open>
  \<^verbatim>\<open>
  def check_header(self, header: dict) -> bool:
      header_hash = hash_header(header)
      height = header.get('block_height')
      return self.check_hash(height, header_hash)
  \<close>
  The result is paired with the header dictionary as \<open>hash_header\<close> left it.
\<close>

definition check_header ::
  "(byte list \<Rightarrow> byte list) \<Rightarrow> net \<Rightarrow> blockchain \<Rightarrow> header \<Rightarrow> error + bool \<times> header option" where
  "check_header sha256d n c hdr =
     ebind (hash_header sha256d (Some hdr)) (\<lambda>r.
     ebind (check_hash sha256d n c (block_height hdr) (fst r)) (\<lambda>b.
     Inr (b, snd r)))"

section \<open>Verification of one header\<close>


section \<open>The target of a block\<close>

text \<open>
  \<^verbatim>\<open>
  MAX_TARGET = 0x0007FFFFFFFFFFFFFFFFFFFFFFFFFFFFFFFFFFFFFFFFFFFFFFFFFFFFFFFFFFFF
  MIN_TARGET = 0x0007ffff00000000000000000000000000000000000000000000000000000000
  POW_MAX_ADJUST_DOWN = 32
  POW_MAX_ADJUST_UP = 16
  POW_DAMPING_FACTOR = 4
  POW_TARGET_SPACING = 60
  EH_EPOCH_1_END = 266000
  LWMA_FORK_BLOCK = 765000
  ZAWY_LWMA3_AVERAGING_WINDOW = 60
  AVERAGING_WINDOW_TIMESPAN = POW_AVERAGING_WINDOW * POW_TARGET_SPACING
  MIN_ACTUAL_TIMESPAN = AVERAGING_WINDOW_TIMESPAN * (100 - POW_MAX_ADJUST_UP) // 100
  MAX_ACTUAL_TIMESPAN = AVERAGING_WINDOW_TIMESPAN * (100 + POW_MAX_ADJUST_DOWN) // 100
  \<close>
\<close>

definition MAX_TARGET :: int where
  "MAX_TARGET = 0x0007FFFFFFFFFFFFFFFFFFFFFFFFFFFFFFFFFFFFFFFFFFFFFFFFFFFFFFFFFFFF"

definition MIN_TARGET :: int where
  "MIN_TARGET = 0x0007ffff00000000000000000000000000000000000000000000000000000000"

definition POW_MAX_ADJUST_DOWN :: int where
  "POW_MAX_ADJUST_DOWN = 32"

definition POW_MAX_ADJUST_UP :: int where
  "POW_MAX_ADJUST_UP = 16"

definition POW_DAMPING_FACTOR :: int where
  "POW_DAMPING_FACTOR = 4"

definition POW_TARGET_SPACING :: int where
  "POW_TARGET_SPACING = 60"

definition EH_EPOCH_1_END :: int where
  "EH_EPOCH_1_END = 266000"

definition LWMA_FORK_BLOCK :: int where
  "LWMA_FORK_BLOCK = 765000"

definition ZAWY_LWMA3_AVERAGING_WINDOW :: int where
  "ZAWY_LWMA3_AVERAGING_WINDOW = 60"

definition AVERAGING_WINDOW_TIMESPAN :: int where
  "AVERAGING_WINDOW_TIMESPAN = POW_AVERAGING_WINDOW * POW_TARGET_SPACING"

definition MIN_ACTUAL_TIMESPAN :: int where
  "MIN_ACTUAL_TIMESPAN = AVERAGING_WINDOW_TIMESPAN * (100 - POW_MAX_ADJUST_UP) div 100"

definition MAX_ACTUAL_TIMESPAN :: int where
  "MAX_ACTUAL_TIMESPAN = AVERAGING_WINDOW_TIMESPAN * (100 + POW_MAX_ADJUST_DOWN) div 100"

subsection \<open>Python numbers\<close>

text \<open>
  \<open>get_target\<close> computes with \<^verbatim>\<open>//\<close>, which keeps integers, and with \<^verbatim>\<open>/\<close>, which gives
  a \<^verbatim>\<open>float\<close> whatever its operands are. A number is therefore an integer or a float; a
  finite float is \<open>m * 2 ^ e\<close> for integers \<open>m\<close> and \<open>e\<close> and is kept as that pair.
\<close>

datatype pynum = PyInt int | PyFloat int int

text \<open>\<^verbatim>\<open>int.bit_length\<close> of a positive integer.\<close>

function bit_length :: "int \<Rightarrow> int" where
  "bit_length a = (if a \<le> 0 then 0 else 1 + bit_length (a div 2))"
  by pat_completeness auto
termination
  by (relation "measure nat") auto

declare bit_length.simps [simp del]

text \<open>The integer nearest to \<open>x / y\<close> for \<open>y > 0\<close>, a tie going to the even one.\<close>

definition round_div :: "int \<Rightarrow> int \<Rightarrow> int" where
  "round_div x y =
     (let q = x div y; r = x mod y in
      if 2 * r < y then q
      else if 2 * r > y then q + 1
      else if even q then q else q + 1)"

text \<open>
  \<^verbatim>\<open>a / b\<close> for two integers: \<^verbatim>\<open>ZeroDivisionError\<close> for \<open>b = 0\<close>, else the IEEE 754
  double nearest to the exact quotient (ties to even), \<^verbatim>\<open>OverflowError\<close> when that is
  \<open>2 ^ 1024\<close> or more. With \<open>2 ^ E \<le> \<bar>a / b\<bar> < 2 ^ (E + 1)\<close> the double is a multiple of
  \<open>2 ^ e\<close> for \<open>e = max (E - 52) (- 1074)\<close>: 53 bits of mantissa, and the fixed exponent
  of the subnormal numbers. \<open>float_exponent x y\<close> is this \<open>e\<close> for \<open>x / y\<close> with \<open>x \<noteq> 0\<close> and
  \<open>y > 0\<close>; \<open>E\<close> is the difference of the two bit lengths, or one less.
\<close>

definition float_exponent :: "int \<Rightarrow> int \<Rightarrow> int" where
  "float_exponent x y =
     (let d = bit_length \<bar>x\<bar> - bit_length y;
          E = (if (if 0 \<le> d then y * 2 ^ nat d \<le> \<bar>x\<bar> else y \<le> \<bar>x\<bar> * 2 ^ nat (- d))
               then d else d - 1)
      in max (E - 52) (- 1074))"

definition py_truediv :: "int \<Rightarrow> int \<Rightarrow> error + int \<times> int" where
  "py_truediv a b =
     (if b = 0 then Inl ZeroDivisionError
      else if a = 0 then Inr (0, 0)
      else
        let x = a * sgn b; y = \<bar>b\<bar>;
            e = float_exponent x y;
            m = (if 0 \<le> e then round_div x (y * 2 ^ nat e) else round_div (x * 2 ^ nat (- e)) y)
        in if 0 \<le> e \<and> 2 ^ 1024 \<le> \<bar>m\<bar> * 2 ^ nat e then Inl OverflowError else Inr (m, e))"

text \<open>\<^verbatim>\<open>int(x)\<close> of a float: the integer part, truncation toward zero.\<close>

definition py_int :: "int \<times> int \<Rightarrow> int" where
  "py_int f =
     (case f of (m, e) \<Rightarrow>
        if 0 \<le> e then m * 2 ^ nat e else sgn m * (\<bar>m\<bar> div 2 ^ nat (- e)))"

text \<open>\<^verbatim>\<open>x < y\<close> on numbers: Python compares an integer and a float by their exact
  values.\<close>

definition mant_exp :: "pynum \<Rightarrow> int \<times> int" where
  "mant_exp x = (case x of PyInt i \<Rightarrow> (i, 0) | PyFloat m e \<Rightarrow> (m, e))"

definition num_less :: "pynum \<Rightarrow> pynum \<Rightarrow> bool" where
  "num_less x y =
     (case (mant_exp x, mant_exp y) of
        ((m1, e1), (m2, e2)) \<Rightarrow>
          let e = min e1 e2 in m1 * 2 ^ nat (e1 - e) < m2 * 2 ^ nat (e2 - e))"

subsection \<open>The headers in flight\<close>

text \<open>
  \<^verbatim>\<open>chunk_headers\<close> is the dictionary that \<^verbatim>\<open>verify_chunk\<close> fills while it checks a
  chunk: the key \<^verbatim>\<open>'empty'\<close>, the keys \<^verbatim>\<open>'min_height'\<close> and \<^verbatim>\<open>'max_height'\<close>, and one
  key for every height whose header it has checked. The two bounds are read only when
  \<^verbatim>\<open>'empty'\<close> is false, and \<^verbatim>\<open>verify_chunk\<close> sets them when it clears the flag.
  \<^verbatim>\<open>get_target\<close> and \<^verbatim>\<open>get_median_time\<close> begin with
  \<^verbatim>\<open>
      if chunk_headers is None or chunk_headers['empty']:
          chunk_empty = True
      else:
          chunk_empty = False
          min_height = chunk_headers['min_height']
          max_height = chunk_headers['max_height']
  \<close>
\<close>

record chunk_headers =
  ch_empty :: bool
  min_height :: int
  max_height :: int
  headers_at :: "int \<Rightarrow> header option"

text \<open>The test \<^verbatim>\<open>not chunk_empty and min_height <= h <= max_height\<close>, and the lookup
  \<^verbatim>\<open>chunk_headers[h]\<close>, which raises \<^verbatim>\<open>KeyError\<close> for a missing key.\<close>

definition in_chunk :: "chunk_headers option \<Rightarrow> int \<Rightarrow> bool" where
  "in_chunk ch h =
     (case ch of
        None \<Rightarrow> False
      | Some d \<Rightarrow> \<not> ch_empty d \<and> min_height d \<le> h \<and> h \<le> max_height d)"

definition chunk_get :: "chunk_headers option \<Rightarrow> int \<Rightarrow> error + header" where
  "chunk_get ch h =
     (case ch of
        None \<Rightarrow> Inl TypeError
      | Some d \<Rightarrow> (case headers_at d h of None \<Rightarrow> Inl KeyError | Some hdr \<Rightarrow> Inr hdr))"

text \<open>
  The three loops over a window of heights fetch a header in the same way:
  \<^verbatim>\<open>
      header = self.read_header(h)
      if not header and not chunk_empty \
          and min_height <= h <= max_height:
              header = chunk_headers[h]
      if not header:
          raise Exception("Can not read header at height %s" % h)
  \<close>
\<close>

definition window_header ::
  "net \<Rightarrow> blockchain \<Rightarrow> chunk_headers option \<Rightarrow> int \<Rightarrow> error + header" where
  "window_header n c ch h =
     ebind (read_header n c h) (\<lambda>header.
       case header of
         Some hdr \<Rightarrow> Inr hdr
       | None \<Rightarrow> if in_chunk ch h then chunk_get ch h else Inl Exception)"

text \<open>A \<^verbatim>\<open>for\<close> loop whose body may raise: the state after the last element, or the first
  exception. \<^verbatim>\<open>range(a, b)\<close> is the list of the integers from \<open>a\<close> to \<open>b - 1\<close>.\<close>

fun efold :: "('a \<Rightarrow> 's \<Rightarrow> error + 's) \<Rightarrow> 'a list \<Rightarrow> 's \<Rightarrow> error + 's" where
  "efold f [] s = Inr s"
| "efold f (x # xs) s = ebind (f x s) (efold f xs)"

definition py_range :: "int \<Rightarrow> int \<Rightarrow> int list" where
  "py_range a b = [a..b - 1]"

text \<open>
  \<^verbatim>\<open>
  def get_median_time(self, height, chunk_headers=None):
      ...
      height_range = range(max(0, height - POW_MEDIAN_BLOCK_SPAN),
                           max(1, height))
      median = []
      for h in height_range:
          header = self.read_header(h)
          if not header and not chunk_empty \
              and min_height <= h <= max_height:
                  header = chunk_headers[h]
          if not header:
              raise Exception("Can not read header at height %s" % h)
          median.append(header.get('timestamp'))

      median.sort()
      return median[len(median)//2]
  \<close>
\<close>

definition get_median_time ::
  "net \<Rightarrow> blockchain \<Rightarrow> int \<Rightarrow> chunk_headers option \<Rightarrow> error + int" where
  "get_median_time n c height ch =
     ebind (efold (\<lambda>h median. ebind (window_header n c ch h) (\<lambda>header.
                     Inr (median @ [timestamp header])))
              (py_range (max 0 (height - POW_MEDIAN_BLOCK_SPAN)) (max 1 height)) [])
       (\<lambda>median. py_index (sort median) (int (length median) div 2))"

text \<open>
  The Digishield branch of \<^verbatim>\<open>get_target\<close>:
  \<^verbatim>\<open>
      height_range = range(max(0, height - POW_AVERAGING_WINDOW),
                          max(1, height))
      mean_target = 0
      for h in height_range:
          header = self.read_header(h)
          if not header and not chunk_empty \
              and min_height <= h <= max_height:
                  header = chunk_headers[h]
          if not header:
              raise Exception("Can not read header at height %s" % h)
          mean_target += self.bits_to_target(header.get('bits'))
      mean_target //= POW_AVERAGING_WINDOW
      actual_timespan = self.get_median_time(height, chunk_headers) - \
          self.get_median_time(height - POW_AVERAGING_WINDOW, chunk_headers)
      actual_timespan = AVERAGING_WINDOW_TIMESPAN + \
          int((actual_timespan - AVERAGING_WINDOW_TIMESPAN) / \
              POW_DAMPING_FACTOR)
      if actual_timespan < MIN_ACTUAL_TIMESPAN:
          actual_timespan = MIN_ACTUAL_TIMESPAN
      elif actual_timespan > MAX_ACTUAL_TIMESPAN:
          actual_timespan = MAX_ACTUAL_TIMESPAN

      next_target = mean_target // AVERAGING_WINDOW_TIMESPAN * actual_timespan

      if next_target > MAX_TARGET:
          next_target = MAX_TARGET

      return next_target
  \<close>
\<close>

definition digishield_target ::
  "net \<Rightarrow> blockchain \<Rightarrow> int \<Rightarrow> chunk_headers option \<Rightarrow> error + pynum" where
  "digishield_target n c height ch =
     ebind (efold (\<lambda>h mean_target. ebind (window_header n c ch h) (\<lambda>header.
                     ebind (bits_to_target (bits header)) (\<lambda>tg. Inr (mean_target + tg))))
              (py_range (max 0 (height - POW_AVERAGING_WINDOW)) (max 1 height)) 0)
       (\<lambda>mean_target_sum.
     let mean_target = mean_target_sum div POW_AVERAGING_WINDOW in
     ebind (get_median_time n c height ch) (\<lambda>m1.
     ebind (get_median_time n c (height - POW_AVERAGING_WINDOW) ch) (\<lambda>m2.
     ebind (py_truediv (m1 - m2 - AVERAGING_WINDOW_TIMESPAN) POW_DAMPING_FACTOR) (\<lambda>q.
     let actual_timespan = AVERAGING_WINDOW_TIMESPAN + py_int q;
         actual_timespan = (if actual_timespan < MIN_ACTUAL_TIMESPAN then MIN_ACTUAL_TIMESPAN
                            else if actual_timespan > MAX_ACTUAL_TIMESPAN then MAX_ACTUAL_TIMESPAN
                            else actual_timespan);
         next_target = mean_target div AVERAGING_WINDOW_TIMESPAN * actual_timespan
     in Inr (PyInt (if next_target > MAX_TARGET then MAX_TARGET else next_target))))))"

text \<open>
  The LWMA branch of \<^verbatim>\<open>get_target\<close>:
  \<^verbatim>\<open>
      T = POW_TARGET_SPACING
      N = ZAWY_LWMA3_AVERAGING_WINDOW
      k = int(N * (N + 1) * T / 2)

      previousTimestamp = 0
      t = 0
      j = 0
      sumTarget = 0

      if (height < N):
          return MAX_TARGET

      if(not chunk_empty and min_height <= height - N - 1 <= max_height):
          previousTimestamp = chunk_headers[height - N - 1].get('timestamp')
      else:
          previousTimestamp = self.read_header(height - N - 1).get('timestamp')

      for h in range(height - N, height):
          header = self.read_header(h)
          if not header and not chunk_empty \
              and min_height <= h <= max_height:
                  header = chunk_headers[h]
          if not header:
              raise Exception("Can not read header at height %s" % h)

          if header.get('timestamp') > previousTimestamp:
              thisTimestamp = header.get('timestamp')
          else:
              thisTimestamp = previousTimestamp + 1
          solvetime = min(6 * T, thisTimestamp - previousTimestamp)
          previousTimestamp = thisTimestamp
          j += 1
          t += solvetime * j # Weighted solvetime sum.
          sumTarget += (self.bits_to_target(header.get('bits')) // (k * N))

          if(h == height - 1):
              previousDiff = self.bits_to_target(header.get('bits'))

      nextTarget = t * sumTarget

      if (nextTarget > (previousDiff * 150) / 100):
          nextTarget = (previousDiff * 150) / 100
      if ((previousDiff * 67) / 100 > nextTarget):
          nextTarget = (previousDiff * 67)/100
      if (nextTarget > MAX_TARGET):
          nextTarget = MAX_TARGET

      return nextTarget
  \<close>
  The first header is looked up in the dictionary first; \<^verbatim>\<open>None.get\<close> raises
  \<^verbatim>\<open>AttributeError\<close>. The state of the loop is the tuple of \<^verbatim>\<open>previousTimestamp\<close>,
  \<^verbatim>\<open>t\<close>, \<^verbatim>\<open>j\<close>, \<^verbatim>\<open>sumTarget\<close> and \<^verbatim>\<open>previousDiff\<close>; the last one is unbound
  (\<open>None\<close>) until the loop reaches \<^verbatim>\<open>height - 1\<close>, and reading an unbound name raises
  \<^verbatim>\<open>UnboundLocalError\<close>.
\<close>

definition lwma_first_timestamp ::
  "net \<Rightarrow> blockchain \<Rightarrow> chunk_headers option \<Rightarrow> int \<Rightarrow> error + int" where
  "lwma_first_timestamp n c ch h =
     (if in_chunk ch h then ebind (chunk_get ch h) (\<lambda>hdr. Inr (timestamp hdr))
      else ebind (read_header n c h) (\<lambda>header.
             case header of None \<Rightarrow> Inl AttributeError | Some hdr \<Rightarrow> Inr (timestamp hdr)))"

definition lwma_step ::
  "net \<Rightarrow> blockchain \<Rightarrow> chunk_headers option \<Rightarrow> int \<Rightarrow> int \<Rightarrow> int \<Rightarrow>
     int \<times> int \<times> int \<times> int \<times> int option \<Rightarrow> error + int \<times> int \<times> int \<times> int \<times> int option" where
  "lwma_step n c ch height k h s =
     (case s of (previousTimestamp, t, j, sumTarget, previousDiff) \<Rightarrow>
        ebind (window_header n c ch h) (\<lambda>header.
          let thisTimestamp = (if timestamp header > previousTimestamp then timestamp header
                               else previousTimestamp + 1);
              solvetime = min (6 * POW_TARGET_SPACING) (thisTimestamp - previousTimestamp);
              j' = j + 1;
              t' = t + solvetime * j'
          in ebind (bits_to_target (bits header)) (\<lambda>tg.
               Inr (thisTimestamp, t', j',
                    sumTarget + tg div (k * ZAWY_LWMA3_AVERAGING_WINDOW),
                    if h = height - 1 then Some tg else previousDiff))))"

definition lwma_clamp :: "int \<Rightarrow> int \<Rightarrow> error + pynum" where
  "lwma_clamp nextTarget previousDiff =
     ebind (py_truediv (previousDiff * 150) 100) (\<lambda>hi.
       let nextTarget1 = (if num_less (PyFloat (fst hi) (snd hi)) (PyInt nextTarget)
                          then PyFloat (fst hi) (snd hi) else PyInt nextTarget)
       in ebind (py_truediv (previousDiff * 67) 100) (\<lambda>lo.
            let nextTarget2 = (if num_less nextTarget1 (PyFloat (fst lo) (snd lo))
                               then PyFloat (fst lo) (snd lo) else nextTarget1)
            in Inr (if num_less (PyInt MAX_TARGET) nextTarget2 then PyInt MAX_TARGET
                    else nextTarget2)))"

definition lwma_target ::
  "net \<Rightarrow> blockchain \<Rightarrow> int \<Rightarrow> chunk_headers option \<Rightarrow> error + pynum" where
  "lwma_target n c height ch =
     (let T = POW_TARGET_SPACING; N = ZAWY_LWMA3_AVERAGING_WINDOW in
      ebind (py_truediv (N * (N + 1) * T) 2) (\<lambda>kf.
        let k = py_int kf in
        if height < N then Inr (PyInt MAX_TARGET)
        else
          ebind (lwma_first_timestamp n c ch (height - N - 1)) (\<lambda>previousTimestamp.
          ebind (efold (lwma_step n c ch height k) (py_range (height - N) height)
                   (previousTimestamp, 0, 0, 0, None)) (\<lambda>s.
            case s of (previousTimestamp', t, j, sumTarget, previousDiff) \<Rightarrow>
              (case previousDiff of
                 None \<Rightarrow> Inl UnboundLocalError
               | Some pd \<Rightarrow> lwma_clamp (t * sumTarget) pd)))))"

text \<open>
  \<^verbatim>\<open>
  def get_target(self, height: int, chunk_headers=None) -> int:
      ...
      if height <= POW_AVERAGING_WINDOW:
          return MAX_TARGET
      if (height > EH_EPOCH_1_END - POW_AVERAGING_WINDOW and height <= EH_EPOCH_1_END):
          return MIN_TARGET

      # LWMA fork
      if(height >= LWMA_FORK_BLOCK):
          ...
      # Digishield
      else:
          ...
  \<close>
\<close>

definition get_target ::
  "net \<Rightarrow> blockchain \<Rightarrow> int \<Rightarrow> chunk_headers option \<Rightarrow> error + pynum" where
  "get_target n c height ch =
     (if height \<le> POW_AVERAGING_WINDOW then Inr (PyInt MAX_TARGET)
      else if height > EH_EPOCH_1_END - POW_AVERAGING_WINDOW \<and> height \<le> EH_EPOCH_1_END
      then Inr (PyInt MIN_TARGET)
      else if height \<ge> LWMA_FORK_BLOCK then lwma_target n c height ch
      else digishield_target n c height ch)"

subsection \<open>The Digishield rule in the words of the specification\<close>

text \<open>
  For comparison with \<open>digishield_target\<close>. The specification: the mean target is the
  sum of the targets of the headers at the heights \<open>[h - 17, h - 1]\<close>, integer-divided by
  17; \<open>median_time x\<close> is the median of the timestamps at the heights \<open>[x - 11, x - 1]\<close>;
  the timespan \<open>median_time h - median_time (h - 17)\<close> is damped to
  \<open>1020 + (actual - 1020) / 4\<close>, ``integer division, truncation toward zero'', and
  clamped to \<open>[1020 * 84 / 100, 1020 * 132 / 100]\<close>; the result is
  \<open>min (mean_target // 1020 * actual) MAX_TARGET\<close>. \<open>w k\<close> is the header at height \<open>k\<close>
  and \<open>tg k\<close> its target.
\<close>

definition trunc_div :: "int \<Rightarrow> int \<Rightarrow> int" where
  "trunc_div a b = sgn a * sgn b * (\<bar>a\<bar> div \<bar>b\<bar>)"

definition median_time_spec :: "(int \<Rightarrow> header) \<Rightarrow> int \<Rightarrow> int" where
  "median_time_spec w x = sort (map (\<lambda>k. timestamp (w k)) [x - 11..x - 1]) ! 5"

definition digishield_spec :: "(int \<Rightarrow> header) \<Rightarrow> (int \<Rightarrow> int) \<Rightarrow> int \<Rightarrow> int" where
  "digishield_spec w tg h =
     (let mean_target = sum_list (map tg [h - 17..h - 1]) div 17;
          actual = median_time_spec w h - median_time_spec w (h - 17);
          damped = 1020 + trunc_div (actual - 1020) 4;
          clamped = max (1020 * 84 div 100) (min (1020 * 132 div 100) damped)
      in min MAX_TARGET (mean_target div 1020 * clamped))"

section \<open>Example data\<close>





abbreviation example_header :: "int \<Rightarrow> int \<Rightarrow> header" where
  "example_header b k \<equiv>
     \<lparr>version = 0, prev_block_hash = Some (replicate 64 CHR ''0''),
       merkle_root = replicate 64 CHR ''0'', reserved_hash = replicate 64 CHR ''0'',
       timestamp = 0, bits = b, nonce = replicate 64 CHR ''0'',
       sol_size = replicate 6 CHR ''0'', solution = [], block_height = k\<rparr>"


abbreviation lwma_chunk :: "int \<Rightarrow> chunk_headers option" where
  "lwma_chunk b \<equiv>
     Some \<lparr>ch_empty = False, min_height = 764939, max_height = 764999,
       headers_at = (\<lambda>k. Some (example_header b k))\<rparr>"

section \<open>Properties of the hexadecimal text\<close>

lemma hexs_zero: "hexs w 0 = replicate w CHR ''0''"
  by (induction w) (auto simp: hexdigit_def replicate_append_same)

lemma length_hexs [simp]: "length (hexs w n) = w"
  by (induction w arbitrary: n) auto

lemma pad_hex_of_nat:
  "n < 16 ^ w \<Longrightarrow> 0 < w \<Longrightarrow>
   length (hex_of_nat n) \<le> w \<and> replicate (w - length (hex_of_nat n)) CHR ''0'' @ hex_of_nat n = hexs w n"
proof (induction n arbitrary: w rule: hex_of_nat.induct)
  case (1 n)
  obtain v where w: "w = Suc v" using 1 by (cases w) auto
  show ?case
  proof (cases "n < 16")
    case True
    then show ?thesis
      by (simp add: w hex_of_nat.simps [of n] hexs_zero)
  next
    case False
    then have v: "0 < v" using 1 w by (cases v) auto
    have "n div 16 < 16 ^ v" using 1 w by (simp add: less_mult_imp_div_less mult.commute)
    from 1(1)[OF False this v] False show ?thesis
      by (simp add: w hex_of_nat.simps [of n] Suc_diff_le)
  qed
qed

lemma hexs_mod: "hexs w (n mod 16 ^ w) = hexs w n"
proof (induction w arbitrary: n)
  case 0
  then show ?case by simp
next
  case (Suc w)
  have a: "(n mod 16 ^ Suc w) div 16 = (n div 16) mod 16 ^ w"
    by (simp add: mod_mult2_eq)
  have b: "(n mod 16 ^ Suc w) mod 16 = n mod 16"
    by (simp add: mod_mod_cancel)
  show ?case by (simp only: hexs.simps a b Suc)
qed

lemma drop_hexs: "drop k (hexs (k + w) n) = hexs w n"
proof (induction w arbitrary: n)
  case 0
  then show ?case by simp
next
  case (Suc w)
  have "drop k (hexs (k + w) (n div 16)) = hexs w (n div 16)" by (rule Suc)
  then show ?case by simp
qed

lemma hexs_shift: "hexs (w + k) (x * 16 ^ k) = hexs w x @ replicate k CHR ''0''"
proof (induction k)
  case 0
  then show ?case by simp
next
  case (Suc k)
  then show ?case by (simp add: hexdigit_def replicate_append_same)
qed

lemma hexs_small: "x < 16 ^ w \<Longrightarrow> hexs (k + w) x = replicate k CHR ''0'' @ hexs w x"
proof (induction w arbitrary: x)
  case 0
  then show ?case by (simp add: hexs_zero)
next
  case (Suc w)
  then have "x div 16 < 16 ^ w" by (simp add: less_mult_imp_div_less mult.commute)
  from Suc.IH [OF this] show ?case by simp
qed

lemma fmt_064x_hexs: "0 \<le> t \<Longrightarrow> t < 2 ^ 256 \<Longrightarrow> fmt_064x t = hexs 64 (nat t)"
proof -
  assume t: "0 \<le> t" "t < 2 ^ 256"
  then have "nat t < 16 ^ 64" by (simp add: nat_less_iff)
  from pad_hex_of_nat [OF this] t show ?thesis by (simp add: fmt_064x_def)
qed

lemma digit_cases:
  "d < 16 \<Longrightarrow> d = 0 \<or> d = 1 \<or> d = 2 \<or> d = 3 \<or> d = 4 \<or> d = 5 \<or> d = 6 \<or> d = 7 \<or> d = 8
     \<or> d = 9 \<or> d = 10 \<or> d = 11 \<or> d = 12 \<or> d = 13 \<or> d = 14 \<or> d = (15::nat)"
  by arith

lemma hexval_hexdigit: "d < 16 \<Longrightarrow> hexval (hexdigit d) = Some d"
  by (drule digit_cases) (auto simp: hexdigit_def hexval_def)

lemma hexdigit_not_space: "d < 16 \<Longrightarrow> \<not> is_space (hexdigit d)"
  by (drule digit_cases) (auto simp: hexdigit_def is_space_def)

lemma hexdigit_eq_0: "d < 16 \<Longrightarrow> hexdigit d = CHR ''0'' \<longleftrightarrow> d = 0"
  by (drule digit_cases) (auto simp: hexdigit_def)

lemma hexs2: "hexs 2 x = [hexdigit (x div 16 mod 16), hexdigit (x mod 16)]"
  by (simp add: numeral_2_eq_2)

lemma mod_256_split: "(x::nat) mod 256 = 16 * (x div 16 mod 16) + x mod 16"
  using mod_mult2_eq [of x 16 16] by simp

lemma hexs2_eq_00: "hexs 2 x = ''00'' \<longleftrightarrow> x mod 256 = 0"
proof -
  have "hexdigit (x div 16 mod 16) = CHR ''0'' \<longleftrightarrow> x div 16 mod 16 = 0"
    by (rule hexdigit_eq_0) simp
  moreover have "hexdigit (x mod 16) = CHR ''0'' \<longleftrightarrow> x mod 16 = 0"
    by (rule hexdigit_eq_0) simp
  ultimately show ?thesis by (simp add: hexs2 mod_256_split)
qed

lemma bfh_hexs2:
  "bfh (hexs 2 x @ cs) =
     (case bfh cs of Inl e \<Rightarrow> Inl e | Inr bs \<Rightarrow> Inr (of_nat (x mod 256) # bs))"
  by (cases "bfh cs") (simp_all add: hexs2 hexval_hexdigit hexdigit_not_space mod_256_split)

lemma hexs_add2: "hexs (Suc (Suc w)) x = hexs w (x div 256) @ hexs 2 x"
proof -
  have "x div 16 div 16 = x div 256" by (simp add: div_mult2_eq)
  then show ?thesis by (simp add: hexs2)
qed

lemma hexs6: "hexs 6 x = hexs 2 (x div 65536) @ hexs 2 (x div 256) @ hexs 2 x"
proof -
  have e6: "(6::nat) = Suc (Suc 4)" and e4: "(4::nat) = Suc (Suc 2)" by simp_all
  have a: "x div 256 div 256 = x div 65536" by (simp add: div_mult2_eq)
  have "hexs 6 x = hexs 4 (x div 256) @ hexs 2 x" by (subst e6) (rule hexs_add2)
  moreover have "hexs 4 (x div 256) = hexs 2 (x div 256 div 256) @ hexs 2 (x div 256)"
    by (subst e4) (rule hexs_add2)
  ultimately show ?thesis by (simp only: a append_assoc)
qed

lemma from_hex6:
  "bfh (hexs 6 x) = Inr [of_nat (x div 65536 mod 256), of_nat (x div 256 mod 256), of_nat (x mod 256)]"
proof -
  have "bfh (hexs 2 x) = Inr [of_nat (x mod 256)]" for x
    using bfh_hexs2 [of x "[]"] by simp
  then show ?thesis by (simp add: hexs6 bfh_hexs2)
qed

lemma bytes3_decomp: "x div 65536 mod 256 * 65536 + x div 256 mod 256 * 256 + x mod 256 = (x::nat)"
  if "x < 16 ^ 6"
proof -
  have a: "x div 256 div 256 = x div 65536" by (simp add: div_mult2_eq)
  have b: "x div 256 = x div 65536 * 256 + x div 256 mod 256"
    using div_mult_mod_eq [of "x div 256" 256] a by simp
  have c: "x = x div 256 * 256 + x mod 256" by simp
  have d: "x div 65536 mod 256 = x div 65536" using that by (simp add: less_mult_imp_div_less)
  show ?thesis unfolding d using b c by linarith
qed

lemma int_from_bytes_big3:
  "int_from_bytes_big [a, b, c] = uint a * 65536 + uint b * 256 + uint c"
  by (simp add: int_from_bytes_big_def)

lemma uint_byte_of_nat: "uint (of_nat (y mod 256) :: byte) = int (y mod 256)"
  by (simp add: uint_nat unat_of_nat)

lemma int_from_hex6:
  assumes "x < 16 ^ 6"
  shows "map_sum id int_from_bytes_big (bfh (hexs 6 x)) = Inr (int x)"
proof -
  have "int (x div 65536 mod 256 * 65536 + x div 256 mod 256 * 256 + x mod 256) = int x"
    using bytes3_decomp [OF assms] by (simp only:)
  then have "int (x div 65536 mod 256) * 65536 + int (x div 256 mod 256) * 256 + int (x mod 256) = int x"
    by (simp only: of_nat_add of_nat_mult of_nat_numeral)
  then show ?thesis
    by (simp only: from_hex6 int_from_bytes_big3 uint_byte_of_nat map_sum.simps)
qed

lemma int_bytes3:
  assumes "x < 16 ^ 6"
  shows "int_from_bytes_big [of_nat (x div 65536 mod 256), of_nat (x div 256 mod 256), of_nat (x mod 256)] = int x"
  using int_from_hex6 [OF assms] by (simp add: from_hex6)

lemma drop2_fmt_064x: "0 \<le> t \<Longrightarrow> t < 2 ^ 256 \<Longrightarrow> drop 2 (fmt_064x t) = hexs 62 (nat t)"
  using drop_hexs [of 2 62 "nat t"] by (simp add: fmt_064x_hexs)

lemma strip00_stop: "take 2 s \<noteq> ''00'' \<or> length s \<le> 6 \<Longrightarrow> strip00 s = s"
  by (subst strip00.simps) auto

lemma strip00_step: "6 \<le> length s \<Longrightarrow> strip00 (CHR ''0'' # CHR ''0'' # s) = strip00 s"
  by (subst strip00.simps) simp

lemma strip00_zeros: "6 \<le> length s \<Longrightarrow> strip00 (replicate (2 * j) CHR ''0'' @ s) = strip00 s"
proof (induction j)
  case 0
  then show ?case by simp
next
  case (Suc j)
  have "strip00 (replicate (2 * Suc j) CHR ''0'' @ s)
      = strip00 (CHR ''0'' # CHR ''0'' # (replicate (2 * j) CHR ''0'' @ s))" by simp
  also have "\<dots> = strip00 (replicate (2 * j) CHR ''0'' @ s)"
    by (rule strip00_step) (use Suc.prems in simp)
  finally show ?case using Suc by simp
qed

lemma target_to_bits_from:
  assumes "strip00 (drop 2 (fmt_064x t)) = c" and "take 6 c = hexs 6 x" and "x < 16 ^ 6"
  shows "target_to_bits t =
           (if int x \<ge> 0x800000
            then Inr (push_bit 24 (int (length c) div 2 + 1) OR drop_bit 8 (int x))
            else Inr (push_bit 24 (int (length c) div 2) OR int x))"
  using assms(1,2) int_bytes3 [OF assms(3)]
  by (simp add: target_to_bits_def from_hex6 Let_def)

section \<open>Claims about the compact encoding\<close>

text \<open>
  Claim C9. For every target \<open>t\<close> with \<open>0 \<le> t < 2 ^ 256\<close>, \<open>target_to_bits t\<close> depends
  only on \<open>t mod 2 ^ 248\<close>: the two leading characters of the 64-digit rendering, that is
  the most significant byte, are dropped by \<^verbatim>\<open>[2:]\<close> before the compaction, so
  \<open>target_to_bits t = target_to_bits (t mod 2 ^ 248)\<close>.
\<close>

theorem target_to_bits_mod:
  assumes "0 \<le> t" and "t < 2 ^ 256"
  shows "target_to_bits t = target_to_bits (t mod 2 ^ 248)"
proof -
  have m: "0 \<le> t mod 2 ^ 248" "t mod 2 ^ 248 < 2 ^ 256"
    by simp_all
  have "nat (t mod 2 ^ 248) = nat t mod 16 ^ 62"
    using assms by (simp add: nat_mod_distrib)
  then have "drop 2 (fmt_064x (t mod 2 ^ 248)) = drop 2 (fmt_064x t)"
    by (simp only: drop2_fmt_064x [OF m] drop2_fmt_064x [OF assms] hexs_mod)
  then show ?thesis by (simp only: target_to_bits_def)
qed

theorem target_to_bits_mod_witness:
  "(0::int) \<le> 2 ^ 255 + 4660 \<and> (2 ^ 255 + 4660 :: int) < 2 ^ 256 \<and>
   target_to_bits (2 ^ 255 + 4660) = target_to_bits ((2 ^ 255 + 4660) mod 2 ^ 248)"
  using target_to_bits_mod [of "2 ^ 255 + 4660"] by simp

lemma compact_digits:
  assumes e: "3 \<le> e" "e \<le> 31" and m: "m < 16 ^ 6"
  shows "hexs 62 (m * 16 ^ (2 * (e - 3))) =
           replicate (2 * (31 - e)) CHR ''0'' @ hexs 6 m @ replicate (2 * (e - 3)) CHR ''0''"
proof -
  let ?k = "2 * (e - 3)"
  have lt: "m * 16 ^ ?k < 16 ^ (6 + ?k)"
    using m by (simp add: power_add)
  have "2 * (31 - e) + (6 + ?k) = 62" using e by simp
  then have "hexs 62 (m * 16 ^ ?k) = hexs (2 * (31 - e) + (6 + ?k)) (m * 16 ^ ?k)" by (simp only:)
  also have "\<dots> = replicate (2 * (31 - e)) CHR ''0'' @ hexs (6 + ?k) (m * 16 ^ ?k)"
    by (rule hexs_small [OF lt])
  also have "hexs (6 + ?k) (m * 16 ^ ?k) = hexs 6 m @ replicate ?k CHR ''0''"
    by (rule hexs_shift)
  finally show ?thesis .
qed

lemma hexs6_times_256:
  "hexs 6 (m * 256) = hexs 2 (m div 256) @ hexs 2 m @ ''00''"
proof -
  have "hexs 2 (m * 256) = ''00''" by (simp add: hexs2_eq_00)
  moreover have "m * 256 div 65536 = m div 256"
    using div_mult2_eq [of "m * 256" 256 256] by simp
  ultimately show ?thesis by (simp add: hexs6)
qed

lemma target_to_bits_compact:
  assumes e: "3 \<le> e" "e \<le> 31" and m: "0x8000 \<le> m" "m \<le> 0x7fffff"
  shows "target_to_bits (int m * 2 ^ (8 * (e - 3))) = Inr (push_bit 24 (int e) OR int m)"
proof -
  let ?k = "2 * (e - 3)"
  let ?t = "int m * 2 ^ (8 * (e - 3))"
  let ?z = "replicate ?k CHR ''0''"
  let ?s = "hexs 6 m @ ?z"
  have m6: "m < 16 ^ 6" using m by simp
  have "(16::int) ^ ?k = (2 ^ 4) ^ ?k" by simp
  also have "\<dots> = 2 ^ (4 * ?k)" by (rule power_mult [symmetric])
  also have "4 * ?k = 8 * (e - 3)" by simp
  finally have p: "(2::int) ^ (8 * (e - 3)) = 16 ^ ?k" by simp
  have nt: "nat ?t = m * 16 ^ ?k"
    by (simp add: p nat_mult_distrib nat_power_eq)
  have "m * 16 ^ ?k < 16 ^ 6 * 16 ^ ?k" using m6 by simp
  also have "\<dots> = 16 ^ (6 + ?k)" by (simp add: power_add)
  also have "\<dots> \<le> (16::nat) ^ 62" using e by (intro power_increasing) simp_all
  finally have "int (m * 16 ^ ?k) < int (16 ^ 62)" by (simp only: of_nat_less_iff)
  then have bound: "?t < 2 ^ 256" using nt by (simp add: p)
  have "drop 2 (fmt_064x ?t) = hexs 62 (m * 16 ^ ?k)"
    using drop2_fmt_064x [OF _ bound] nt by simp
  then have c0: "drop 2 (fmt_064x ?t) = replicate (2 * (31 - e)) CHR ''0'' @ ?s"
    by (simp add: compact_digits [OF e m6])
  have st: "strip00 (drop 2 (fmt_064x ?t)) = strip00 ?s"
    unfolding c0 by (rule strip00_zeros) simp
  have len: "int (length ?s) div 2 = int e" using e by simp
  show ?thesis
  proof (cases "0x10000 \<le> m \<or> e = 3")
    case True
    have "take 2 ?s \<noteq> ''00'' \<or> length ?s \<le> 6"
    proof (cases "e = 3")
      case True
      then show ?thesis by simp
    next
      case False
      with True have big: "0x10000 \<le> m" by simp
      have "m div 65536 mod 256 = m div 65536"
        using m by (simp add: less_mult_imp_div_less)
      moreover have "0 < m div 65536" using big by (simp add: div_greater_zero_iff)
      ultimately have "hexs 2 (m div 65536) \<noteq> ''00''" by (simp add: hexs2_eq_00)
      then show ?thesis by (simp add: hexs6)
    qed
    then have "strip00 (drop 2 (fmt_064x ?t)) = ?s" by (simp only: st strip00_stop)
    moreover have "take 6 ?s = hexs 6 m" by simp
    ultimately have "target_to_bits ?t =
           (if int m \<ge> 0x800000
            then Inr (push_bit 24 (int (length ?s) div 2 + 1) OR drop_bit 8 (int m))
            else Inr (push_bit 24 (int (length ?s) div 2) OR int m))"
      using m6 by (rule target_to_bits_from)
    then show ?thesis using m by (simp only: len) simp
  next
    case False
    then have small: "m < 0x10000" and e4: "4 \<le> e" using e by simp_all
    let ?s' = "hexs 2 (m div 256) @ hexs 2 m @ ?z"
    have "hexs 2 (m div 65536) = ''00''" using small by (simp add: hexs2_eq_00)
    then have s: "?s = CHR ''0'' # CHR ''0'' # ?s'" by (simp add: hexs6)
    have "strip00 ?s = strip00 ?s'"
      unfolding s by (rule strip00_step) (use e4 in simp)
    moreover have "take 2 ?s' \<noteq> ''00'' \<or> length ?s' \<le> 6"
    proof -
      have "m div 256 mod 256 = m div 256"
        using small by (simp add: less_mult_imp_div_less)
      moreover have "0 < m div 256" using m by (simp add: div_greater_zero_iff)
      ultimately have "hexs 2 (m div 256) \<noteq> ''00''" by (simp add: hexs2_eq_00)
      then show ?thesis by simp
    qed
    ultimately have c: "strip00 (drop 2 (fmt_064x ?t)) = ?s'" by (simp only: st strip00_stop)
    obtain j where j: "?k = Suc (Suc j)" using e4 by (cases ?k; cases "?k - 1") auto
    have t6: "take 6 ?s' = hexs 6 (m * 256)"
      unfolding hexs6_times_256 j by simp
    have x6: "m * 256 < 16 ^ 6" using small by simp
    have len': "int (length ?s') div 2 + 1 = int e" using e4 by simp
    have "drop_bit 8 (int (m * 256)) = int m" by (simp add: drop_bit_eq_div)
    moreover have "int (m * 256) \<ge> 0x800000" using m by simp
    ultimately show ?thesis
      using target_to_bits_from [OF c t6 x6] by (simp only: len' if_True)
  qed
qed

lemma compact_recompose:
  assumes "0 \<le> b" and "b < 2 ^ 32"
  shows "push_bit 24 (drop_bit 24 b AND 0xff) OR (b AND 0xffffff) = (b::int)"
proof -
  have k: "(0xff::int) = mask 8" "(0xffffff::int) = mask 24"
    by (simp_all add: mask_eq_exp_minus_1)
  have tb: "take_bit 32 b = b" using assms by (simp add: take_bit_int_eq_self)
  have hi: "n < 32" if "bit b n" for n
    using that bit_take_bit_iff [of 32 b n] tb by simp
  show ?thesis
    unfolding k
  proof (rule bit_eqI)
    fix n
    show "bit (push_bit 24 (drop_bit 24 b AND mask 8) OR (b AND mask 24)) n = bit b n"
      using hi [of n] by (auto simp add: bit_simps)
  qed
qed

text \<open>
  Claim C1. For every canonical compact value \<open>b\<close>, a 32-bit value whose exponent byte
  \<open>(b >> 24) & 0xff\<close> is in \<open>[0x03, 0x1f]\<close> and whose mantissa \<open>b & 0xffffff\<close> is in
  \<open>[0x8000, 0x7fffff]\<close>, \<open>bits_to_target b\<close> returns a target \<open>t\<close> and
  \<open>target_to_bits t\<close> returns \<open>b\<close> again.
\<close>

theorem bits_roundtrip:
  assumes "0 \<le> b" and "b < 2 ^ 32"
    and "0x03 \<le> drop_bit 24 b AND 0xff" and "drop_bit 24 b AND 0xff \<le> 0x1f"
    and "0x8000 \<le> b AND 0xffffff" and "b AND 0xffffff \<le> 0x7fffff"
  shows "\<exists>t. bits_to_target b = Inr t \<and> target_to_bits t = Inr b"
proof -
  define E where "E = drop_bit 24 b AND 0xff"
  define M where "M = b AND 0xffffff"
  have E: "3 \<le> E" "E \<le> 31" and M: "32768 \<le> M" "M \<le> 8388607"
    using assms by (simp_all add: E_def M_def)
  have t: "bits_to_target b = Inr (push_bit (nat (8 * (E - 3))) M)"
    using E M by (simp add: bits_to_target_def E_def [symmetric] M_def [symmetric])
  have "nat (8 * (E - 3)) = 8 * (nat E - 3)" using E by simp
  then have "push_bit (nat (8 * (E - 3))) M = int (nat M) * 2 ^ (8 * (nat E - 3))"
    using M by (simp add: push_bit_eq_mult)
  moreover have "target_to_bits (int (nat M) * 2 ^ (8 * (nat E - 3)))
      = Inr (push_bit 24 (int (nat E)) OR int (nat M))"
    by (rule target_to_bits_compact) (use E M in simp_all)
  moreover have "push_bit 24 (int (nat E)) OR int (nat M) = b"
    using E M compact_recompose [OF assms(1,2)] by (simp add: E_def M_def)
  ultimately show ?thesis using t by simp
qed

theorem bits_roundtrip_witness:
  "(0::int) \<le> 0x1f07ffff \<and> (0x1f07ffff::int) < 2 ^ 32
     \<and> (0x03::int) \<le> drop_bit 24 0x1f07ffff AND 0xff \<and> drop_bit 24 (0x1f07ffff::int) AND 0xff \<le> 0x1f
     \<and> (0x8000::int) \<le> 0x1f07ffff AND 0xffffff \<and> (0x1f07ffff::int) AND 0xffffff \<le> 0x7fffff
     \<and> (\<exists>t. bits_to_target 0x1f07ffff = Inr t \<and> target_to_bits t = Inr 0x1f07ffff)"
proof -
  have h: "(0::int) \<le> 0x1f07ffff" "(0x1f07ffff::int) < 2 ^ 32"
     "(0x03::int) \<le> drop_bit 24 0x1f07ffff AND 0xff" "drop_bit 24 (0x1f07ffff::int) AND 0xff \<le> 0x1f"
     "(0x8000::int) \<le> 0x1f07ffff AND 0xffffff" "(0x1f07ffff::int) AND 0xffffff \<le> 0x7fffff"
    by (simp_all add: drop_bit_eq_div)
  from bits_roundtrip [OF h] h show ?thesis by blast
qed

section \<open>Claims about the byte offsets\<close>

lemma offset_spec_step:
  assumes "checkpoint \<le> height"
  shows "offset_spec n checkpoint (height + 1)
           = offset_spec n checkpoint height + int (get_header_size n height)"
  using assms
  by (auto simp add: offset_spec_def get_header_size_def is_post_equihash_fork_def Let_def
        max_def min_def algebra_simps)

lemma get_offset_trunk:
  assumes "0 \<le> EQUIHASH_FORK_HEIGHT n" and "0 \<le> height"
  shows "get_offset n 0 height = offset_spec n 0 height"
  using assms
  by (auto simp add: get_offset_def offset_spec_def get_header_size_def
        is_post_equihash_fork_def Let_def max_def min_def)

lemma get_offset_step_slip:
  assumes "0 < checkpoint" and "checkpoint < EQUIHASH_FORK_HEIGHT n"
  shows "get_offset n checkpoint (EQUIHASH_FORK_HEIGHT n)
           - get_offset n checkpoint (EQUIHASH_FORK_HEIGHT n - 1)
         = (checkpoint + 1) * int (HDR_LEN n)"
  using assms
  by (simp add: get_offset_def get_header_size_def is_post_equihash_fork_def Let_def algebra_simps)

text \<open>
  Claim C2. The claim: for \<open>checkpoint \<le> h1 \<le> h2\<close> the difference of the offsets of \<open>h2\<close>
  and \<open>h1\<close> is the sum of the header sizes in between; equivalently \<open>get_offset\<close> is
  \<open>pre \<cdot> HDR_LEN + post \<cdot> HDR_LEN_FORK\<close> with \<open>pre = max(0, min(height, EQUIHASH_FORK_HEIGHT)
  - checkpoint)\<close>. The code does this below the fork height (\<open>prb = height - checkpoint\<close>),
  but from the fork height on it sets \<open>prb = EQUIHASH_FORK_HEIGHT\<close> and leaves the
  checkpoint out: the result exceeds the stated offset by
  \<open>min(EQUIHASH_FORK_HEIGHT, checkpoint) \<cdot> HDR_LEN\<close>, which is not zero for a file that
  starts above height 0.
\<close>

theorem get_offset_post_fork_slip:
  assumes "0 \<le> checkpoint" and "checkpoint \<le> height"
    and "0 \<le> EQUIHASH_FORK_HEIGHT n" and "EQUIHASH_FORK_HEIGHT n \<le> height"
  shows "get_offset n checkpoint height
           = offset_spec n checkpoint height
             + min (EQUIHASH_FORK_HEIGHT n) checkpoint * int (HDR_LEN n)"
  using assms
  by (auto simp add: get_offset_def offset_spec_def get_header_size_def
        is_post_equihash_fork_def Let_def max_def min_def algebra_simps)

theorem get_offset_post_fork_slip_witness:
  "(0::int) \<le> 1 \<and> (1::int) \<le> 266000
   \<and> 0 \<le> EQUIHASH_FORK_HEIGHT \<lparr>EQUIHASH_FORK_HEIGHT = 266000, HDR_LEN = 1487, HDR_LEN_FORK = 241,
          TESTNET = False, GENESIS = [], CHECKPOINTS = [], max_checkpoint = 0\<rparr>
   \<and> EQUIHASH_FORK_HEIGHT \<lparr>EQUIHASH_FORK_HEIGHT = 266000, HDR_LEN = 1487, HDR_LEN_FORK = 241,
          TESTNET = False, GENESIS = [], CHECKPOINTS = [], max_checkpoint = 0\<rparr> \<le> 266000
   \<and> get_offset \<lparr>EQUIHASH_FORK_HEIGHT = 266000, HDR_LEN = 1487, HDR_LEN_FORK = 241,
          TESTNET = False, GENESIS = [], CHECKPOINTS = [], max_checkpoint = 0\<rparr> 1 266000 = 395542000
   \<and> offset_spec \<lparr>EQUIHASH_FORK_HEIGHT = 266000, HDR_LEN = 1487, HDR_LEN_FORK = 241,
          TESTNET = False, GENESIS = [], CHECKPOINTS = [], max_checkpoint = 0\<rparr> 1 266000 = 395540513"
  using get_offset_post_fork_slip [of 1 266000
      "\<lparr>EQUIHASH_FORK_HEIGHT = 266000, HDR_LEN = 1487, HDR_LEN_FORK = 241,
          TESTNET = False, GENESIS = [], CHECKPOINTS = [], max_checkpoint = 0\<rparr>"]
  by (simp add: offset_spec_def)

section \<open>Claims about reading a header\<close>

lemma read_header_negative: "height < 0 \<Longrightarrow> read_header n c height = Inr None"
  by (simp add: read_header_def)

lemma read_header_above_tip:
  assumes "0 \<le> height" and "forkpoint c \<le> height" and "chain_height c < height"
  shows "read_header n c height = Inr None"
  using assms by (simp add: read_header_def)

lemma read_header_in_file:
  assumes "0 \<le> height" and "forkpoint c \<le> height" and "height \<le> chain_height c"
    and "file_content c = Some content"
    and "0 \<le> get_offset n (forkpoint c) height"
    and "h = take (get_header_size n height) (drop (nat (get_offset n (forkpoint c) height)) content)"
    and "length h = get_header_size n height"
  shows "read_header n c height =
           (if h = replicate (get_header_size n height) 0 then Inr None
            else ebind (deserialize_header n h height) (\<lambda>hd. Inr (Some hd)))"
  using assms by (simp add: read_header_def Let_def)

text \<open>
  Claim C7. The claim: for a height below the chain's forkpoint \<open>read_header\<close> is answered
  by the parent chain's \<open>read_header\<close>; above the tip it returns none; otherwise it reads
  \<open>header_size(height)\<close> bytes at \<open>get_offset(forkpoint, height)\<close> and returns none for a
  block of zero bytes, else the deserialized header. The last two parts hold
  (\<open>read_header_above_tip\<close>, \<open>read_header_in_file\<close>). The first does not: the code calls
  \<^verbatim>\<open>self.parent()\<close>, and \<^verbatim>\<open>parent\<close> is an attribute, not a method, so for every height
  from 0 up to the forkpoint the call raises \<^verbatim>\<open>TypeError\<close> and the parent is never
  asked.
\<close>

theorem read_header_below_forkpoint:
  assumes "0 \<le> height" and "height < forkpoint c"
  shows "read_header n c height = Inl TypeError"
  using assms by (simp add: read_header_def)

theorem read_header_below_forkpoint_witness:
  "(0::int) \<le> 3
   \<and> 3 < forkpoint (Blockchain 5 (Some (Blockchain 0 None 10 (Some (replicate 1000 0)))) 1 (Some []))
   \<and> read_header \<lparr>EQUIHASH_FORK_HEIGHT = 266000, HDR_LEN = 100, HDR_LEN_FORK = 100,
          TESTNET = False, GENESIS = [], CHECKPOINTS = [], max_checkpoint = 0\<rparr>
        (Blockchain 5 (Some (Blockchain 0 None 10 (Some (replicate 1000 0)))) 1 (Some [])) 3
      = Inl TypeError
   \<and> read_header \<lparr>EQUIHASH_FORK_HEIGHT = 266000, HDR_LEN = 100, HDR_LEN_FORK = 100,
          TESTNET = False, GENESIS = [], CHECKPOINTS = [], max_checkpoint = 0\<rparr>
        (Blockchain 0 None 10 (Some (replicate 1000 0))) 3
      = Inr None"
proof -
  have "read_header \<lparr>EQUIHASH_FORK_HEIGHT = 266000, HDR_LEN = 100, HDR_LEN_FORK = 100,
          TESTNET = False, GENESIS = [], CHECKPOINTS = [], max_checkpoint = 0\<rparr>
        (Blockchain 0 None 10 (Some (replicate 1000 0))) 3 = Inr None"
    by (simp add: read_header_def chain_height_def get_offset_def get_header_size_def
          is_post_equihash_fork_def)
  then show ?thesis
    using read_header_below_forkpoint [of 3
        "Blockchain 5 (Some (Blockchain 0 None 10 (Some (replicate 1000 0)))) 1 (Some [])"]
    by simp
qed

section \<open>Claims about the hash checks\<close>

lemma length_bh2u: "length (bh2u bs) = 2 * length bs"
  by (induction bs) simp_all

lemma length_hash_encode: "length (hash_encode x) = 2 * length x"
  by (simp add: hash_encode_def length_bh2u)

lemma hash_header_Some:
  assumes "hash_header sha256d (Some hdr) = Inr r"
  shows "\<exists>raw. fst r = hash_encode (sha256d raw)
           \<and> snd r = Some (if prev_block_hash hdr = None
                            then hdr\<lparr>prev_block_hash := Some (concat (replicate 32 ''00''))\<rparr>
                            else hdr)"
  using assms
  by (auto simp add: hash_header_def ebind_def Let_def split: sum.splits if_splits)

lemma check_hash_cases:
  assumes "length s = 64"
  shows "check_hash sha256d n c height s =
           (case get_hash sha256d n c height of Inl e \<Rightarrow> Inr False | Inr h \<Rightarrow> Inr (s = h))"
  using assms by (simp add: check_hash_def)

lemma bfh_bh2u_append:
  "bfh (bh2u bs @ t) = ebind (bfh t) (\<lambda>r. Inr (bs @ r))"
proof (induction bs)
  case Nil
  show ?case by (cases "bfh t") (simp_all add: ebind_def)
next
  case (Cons b bs)
  have "unat b < 2 ^ LENGTH(8)" by (rule unsigned_less)
  then have lt: "unat b div 16 < 16" by (simp add: less_mult_imp_div_less)
  have "16 * (unat b div 16) + unat b mod 16 = unat b" by simp
  then have "(of_nat (16 * (unat b div 16) + unat b mod 16) :: byte) = b" by simp
  then show ?case
    using lt Cons
    by (cases "bfh t") (simp_all add: hexval_hexdigit hexdigit_not_space ebind_def)
qed

lemma bfh_bh2u: "bfh (bh2u bs) = Inr bs"
  using bfh_bh2u_append [of bs "[]"] by (simp add: ebind_def)

lemma rev_hex_bh2u: "rev_hex (bh2u bs) = Inr (bh2u (rev bs))"
  by (simp add: rev_hex_def bfh_bh2u ebind_def)

lemma bh2u_zeros: "bh2u (replicate k 0) = replicate (2 * k) CHR ''0''"
  by (induction k) (simp_all add: hexdigit_def)

lemma int_to_hex_0_4: "int_to_hex 0 4 = Inr (bh2u (replicate 4 0))"
proof -
  have "replicate 7 CHR ''0'' @ ''0'' = replicate 8 CHR ''0''"
    by (simp add: numeral_eq_Suc)
  moreover have "bh2u (replicate 4 0) = replicate 8 CHR ''0''"
    using bh2u_zeros [of 4] by simp
  ultimately have "replicate 7 CHR ''0'' @ ''0'' = bh2u (replicate 4 0)" by simp
  then show ?thesis
    by (simp add: int_to_hex_def hex_of_nat.simps [of 0] hexdigit_def rev_hex_bh2u)
qed

lemma rev_hex_Nil: "rev_hex [] = Inr []"
  by (simp add: rev_hex_def ebind_def)

lemma hash_header_example:
  "hash_header (\<lambda>x. replicate 32 0)
     (Some \<lparr>version = 0, prev_block_hash = Some [], merkle_root = [], reserved_hash = [],
            timestamp = 0, bits = 0, nonce = [], sol_size = [], solution = [],
            block_height = 5\<rparr>)
   = Inr (replicate 64 CHR ''0'',
          Some \<lparr>version = 0, prev_block_hash = Some [], merkle_root = [], reserved_hash = [],
            timestamp = 0, bits = 0, nonce = [], sol_size = [], solution = [],
            block_height = 5\<rparr>)"
proof -
  have "hash_encode (replicate 32 0) = replicate 64 CHR ''0''"
    by (simp add: hash_encode_def bh2u_zeros)
  then show ?thesis
    by (simp add: hash_header_def serialize_header_def int_to_hex_0_4 rev_hex_Nil ebind_def
          bfh_bh2u_append bfh_bh2u)
qed

lemma hash_header_Inl:
  assumes "hash_header sha256d (Some hdr) = Inl e"
  shows "check_header sha256d n c hdr = Inl e"
  using assms by (simp add: check_header_def ebind_def)

lemma hash_header_bad_example:
  "hash_header (\<lambda>x. replicate 32 0)
     (Some \<lparr>version = 0, prev_block_hash = Some [], merkle_root = ''zz'', reserved_hash = [],
            timestamp = 0, bits = 0, nonce = [], sol_size = [], solution = [],
            block_height = 5\<rparr>)
   = Inl ValueError"
  by (simp add: hash_header_def serialize_header_def int_to_hex_0_4 rev_hex_Nil ebind_def
        rev_hex_def hexval_def is_space_def)

text \<open>
  Claim C10, first half as stated, second half amended. For every height and every text \<open>s\<close>
  of 64 characters \<open>check_hash\<close> returns a boolean and raises nothing: whatever \<open>get_hash\<close>
  raises (a missing header, an unreadable file, stored bytes that do not decode, a
  checkpoint entry of the wrong shape) is caught and gives \<open>False\<close>. \<open>check_header\<close> does
  not return a boolean for every header dictionary: it calls \<open>hash_header\<close> before
  \<open>check_hash\<close>, outside the \<^verbatim>\<open>try\<close>, so it raises exactly what \<open>hash_header\<close> raises
  (a field that is not hexadecimal text, a scalar out of the range of 4 bytes), and
  returns a boolean for every header that \<open>hash_header\<close> can hash, \<^verbatim>\<open>sha256d\<close> giving its
  32 bytes; it leaves the dictionary as \<open>hash_header\<close> left it.
\<close>

theorem check_header_raises_as_hash_header:
  "(length s = 64 \<longrightarrow>
      (\<exists>b. check_hash sha256d n c height s = Inr b)
      \<and> (\<forall>e. get_hash sha256d n c height = Inl e \<longrightarrow> check_hash sha256d n c height s = Inr False))
   \<and> (\<forall>e. hash_header sha256d (Some hdr) = Inl e \<longrightarrow> check_header sha256d n c hdr = Inl e)
   \<and> ((\<forall>x. length (sha256d x) = 32) \<longrightarrow>
        (\<forall>r. hash_header sha256d (Some hdr) = Inr r \<longrightarrow>
           (\<exists>b. check_header sha256d n c hdr = Inr (b, snd r))))"
proof (intro conjI impI allI)
  assume "length s = 64"
  then show "\<exists>b. check_hash sha256d n c height s = Inr b"
    by (cases "get_hash sha256d n c height") (auto simp add: check_hash_cases)
next
  fix e
  assume "length s = 64" and "get_hash sha256d n c height = Inl e"
  then show "check_hash sha256d n c height s = Inr False"
    by (simp add: check_hash_cases)
next
  fix e
  assume "hash_header sha256d (Some hdr) = Inl e"
  then show "check_header sha256d n c hdr = Inl e"
    by (rule hash_header_Inl)
next
  fix r
  assume sha: "\<forall>x. length (sha256d x) = 32" and r: "hash_header sha256d (Some hdr) = Inr r"
  from hash_header_Some [OF r] obtain raw where "fst r = hash_encode (sha256d raw)" by blast
  then have "length (fst r) = 64" using sha by (simp add: length_hash_encode)
  then obtain b where "check_hash sha256d n c (block_height hdr) (fst r) = Inr b"
    by (cases "get_hash sha256d n c (block_height hdr)") (auto simp add: check_hash_cases)
  then show "\<exists>b. check_header sha256d n c hdr = Inr (b, snd r)"
    using r by (simp add: check_header_def ebind_def)
qed

theorem check_header_raises_as_hash_header_witness:
  "length (replicate 64 CHR ''0'') = 64
   \<and> get_hash (\<lambda>x. replicate 32 0)
        \<lparr>EQUIHASH_FORK_HEIGHT = 266000, HDR_LEN = 100, HDR_LEN_FORK = 100,
          TESTNET = False, GENESIS = [], CHECKPOINTS = [], max_checkpoint = 0\<rparr>
        (Blockchain 0 None 0 None) 5 = Inl (MissingHeader 5)
   \<and> check_hash (\<lambda>x. replicate 32 0)
        \<lparr>EQUIHASH_FORK_HEIGHT = 266000, HDR_LEN = 100, HDR_LEN_FORK = 100,
          TESTNET = False, GENESIS = [], CHECKPOINTS = [], max_checkpoint = 0\<rparr>
        (Blockchain 0 None 0 None) 5 (replicate 64 CHR ''0'') = Inr False
   \<and> (\<forall>x::byte list. length (replicate 32 (0::byte)) = 32)
   \<and> hash_header (\<lambda>x. replicate 32 0)
        (Some \<lparr>version = 0, prev_block_hash = Some [], merkle_root = [], reserved_hash = [],
            timestamp = 0, bits = 0, nonce = [], sol_size = [], solution = [],
            block_height = 5\<rparr>)
      = Inr (replicate 64 CHR ''0'',
          Some \<lparr>version = 0, prev_block_hash = Some [], merkle_root = [], reserved_hash = [],
            timestamp = 0, bits = 0, nonce = [], sol_size = [], solution = [],
            block_height = 5\<rparr>)
   \<and> check_header (\<lambda>x. replicate 32 0)
        \<lparr>EQUIHASH_FORK_HEIGHT = 266000, HDR_LEN = 100, HDR_LEN_FORK = 100,
          TESTNET = False, GENESIS = [], CHECKPOINTS = [], max_checkpoint = 0\<rparr>
        (Blockchain 0 None 0 None)
        \<lparr>version = 0, prev_block_hash = Some [], merkle_root = [], reserved_hash = [],
            timestamp = 0, bits = 0, nonce = [], sol_size = [], solution = [],
            block_height = 5\<rparr>
      = Inr (False, Some \<lparr>version = 0, prev_block_hash = Some [], merkle_root = [],
            reserved_hash = [], timestamp = 0, bits = 0, nonce = [], sol_size = [],
            solution = [], block_height = 5\<rparr>)
   \<and> hash_header (\<lambda>x. replicate 32 0)
        (Some \<lparr>version = 0, prev_block_hash = Some [], merkle_root = ''zz'',
            reserved_hash = [], timestamp = 0, bits = 0, nonce = [], sol_size = [],
            solution = [], block_height = 5\<rparr>)
      = Inl ValueError
   \<and> check_header (\<lambda>x. replicate 32 0)
        \<lparr>EQUIHASH_FORK_HEIGHT = 266000, HDR_LEN = 100, HDR_LEN_FORK = 100,
          TESTNET = False, GENESIS = [], CHECKPOINTS = [], max_checkpoint = 0\<rparr>
        (Blockchain 0 None 0 None)
        \<lparr>version = 0, prev_block_hash = Some [], merkle_root = ''zz'', reserved_hash = [],
            timestamp = 0, bits = 0, nonce = [], sol_size = [], solution = [],
            block_height = 5\<rparr>
      = Inl ValueError"
proof -
  let ?sha = "\<lambda>x::byte list. replicate 32 (0::byte)"
  let ?n = "\<lparr>EQUIHASH_FORK_HEIGHT = 266000, HDR_LEN = 100, HDR_LEN_FORK = 100,
          TESTNET = False, GENESIS = [], CHECKPOINTS = [], max_checkpoint = 0\<rparr>"
  let ?c = "Blockchain 0 None 0 None"
  let ?h = "\<lparr>version = 0, prev_block_hash = Some [], merkle_root = [], reserved_hash = [],
            timestamp = 0, bits = 0, nonce = [], sol_size = [], solution = [],
            block_height = 5\<rparr>"
  let ?bad = "\<lparr>version = 0, prev_block_hash = Some [], merkle_root = ''zz'',
            reserved_hash = [], timestamp = 0, bits = 0, nonce = [], sol_size = [],
            solution = [], block_height = 5\<rparr>"
  have g: "get_hash ?sha ?n ?c 5 = Inl (MissingHeader 5)"
    by (simp add: get_hash_def is_height_checkpoint_def CHUNK_LEN_def TARGET_CALC_BLOCKS_def
          POW_AVERAGING_WINDOW_def POW_MEDIAN_BLOCK_SPAN_def read_header_def chain_height_def
          ebind_def)
  note t = check_header_raises_as_hash_header [of "replicate 64 CHR ''0''" ?sha ?n ?c 5 ?h]
  note u = check_header_raises_as_hash_header [of "replicate 64 CHR ''0''" ?sha ?n ?c 5 ?bad]
  from t g have f: "check_hash ?sha ?n ?c 5 (replicate 64 CHR ''0'') = Inr False" by simp
  from t hash_header_example
  have "\<exists>b. check_header ?sha ?n ?c ?h = Inr (b, Some ?h)" by simp
  then have "check_header ?sha ?n ?c ?h = Inr (False, Some ?h)"
    using f hash_header_example by (auto simp add: check_header_def ebind_def)
  moreover from u hash_header_bad_example
  have "check_header ?sha ?n ?c ?bad = Inl ValueError" by simp
  ultimately show ?thesis using g f hash_header_example hash_header_bad_example by simp
qed

text \<open>
  The header dictionary on which the claim as stated fails: its \<^verbatim>\<open>merkle_root\<close> is the
  text \<^verbatim>\<open>'zz'\<close>, \<^verbatim>\<open>bytes.fromhex\<close> raises \<^verbatim>\<open>ValueError\<close> inside \<open>hash_header\<close>, and
  \<open>check_header\<close> raises it.
\<close>

theorem check_header_raises:
  "check_header (\<lambda>x. replicate 32 0)
     \<lparr>EQUIHASH_FORK_HEIGHT = 266000, HDR_LEN = 100, HDR_LEN_FORK = 100,
       TESTNET = False, GENESIS = [], CHECKPOINTS = [], max_checkpoint = 0\<rparr>
     (Blockchain 0 None 0 None)
     \<lparr>version = 0, prev_block_hash = Some [], merkle_root = ''zz'', reserved_hash = [],
       timestamp = 0, bits = 0, nonce = [], sol_size = [], solution = [],
       block_height = 5\<rparr>
   = Inl ValueError"
  using hash_header_bad_example by (simp add: check_header_def ebind_def)

section \<open>Decoded headers serialize\<close>














section \<open>Claims about the verification of a header\<close>









section \<open>Claims about the target of a block\<close>



section \<open>Loops over a window of headers\<close>



lemma length_py_range: "length (py_range a b) = nat (b - a)"
  by (simp add: py_range_def)



lemma efold_sum_targets:
  assumes "\<forall>k \<in> set xs. window_header n c ch k = Inr (w k) \<and> bits_to_target (bits (w k)) = Inr (tg k)"
  shows "efold (\<lambda>h mean_target. ebind (window_header n c ch h) (\<lambda>header.
                     ebind (bits_to_target (bits header)) (\<lambda>tg. Inr (mean_target + tg)))) xs a
         = Inr (a + sum_list (map tg xs))"
  using assms
  by (induction xs arbitrary: a) (simp_all add: ebind_def)

lemma efold_timestamps:
  assumes "\<forall>k \<in> set xs. window_header n c ch k = Inr (w k)"
  shows "efold (\<lambda>h median. ebind (window_header n c ch h) (\<lambda>header.
                     Inr (median @ [timestamp header]))) xs acc
         = Inr (acc @ map (\<lambda>k. timestamp (w k)) xs)"
  using assms
  by (induction xs arbitrary: acc) (simp_all add: ebind_def)

section \<open>Division that gives a float\<close>

lemma bit_length_le: "0 \<le> a \<Longrightarrow> a < 2 ^ k \<Longrightarrow> bit_length a \<le> int k"
proof (induction k arbitrary: a)
  case 0
  then have "a = 0" by simp
  then show ?case by (simp add: bit_length.simps)
next
  case (Suc k)
  show ?case
  proof (cases "a \<le> 0")
    case True
    then show ?thesis by (simp add: bit_length.simps [of a])
  next
    case False
    have "a div 2 < 2 ^ k" using Suc.prems by simp
    moreover have "0 \<le> a div 2" using Suc.prems by simp
    ultimately have "bit_length (a div 2) \<le> int k" by (rule Suc.IH [rotated])
    then show ?thesis using False by (simp add: bit_length.simps [of a])
  qed
qed

lemma bit_length_4: "bit_length 4 = 3"
  by (simp add: bit_length.simps [of 4] bit_length.simps [of 2] bit_length.simps [of 1]
        bit_length.simps [of 0])

lemma round_div_exact: "0 < y \<Longrightarrow> round_div (y * z) y = z"
  by (simp add: round_div_def)




lemma float_exponent_4:
  assumes "\<bar>x\<bar> < 2 ^ 53"
  shows "float_exponent x 4 \<le> - 2"
proof -
  define d where "d = bit_length \<bar>x\<bar> - 3"
  have "bit_length \<bar>x\<bar> \<le> int 53" using assms by (intro bit_length_le) simp_all
  then have "d \<le> 50" by (simp add: d_def)
  then have "(if (if 0 \<le> d then 4 * 2 ^ nat d \<le> \<bar>x\<bar> else 4 \<le> \<bar>x\<bar> * 2 ^ nat (- d))
               then d else d - 1) \<le> 50" by simp
  then show ?thesis
    unfolding float_exponent_def Let_def bit_length_4 d_def by simp
qed

lemma py_truediv_4:
  assumes "\<bar>x\<bar> < 2 ^ 53"
  shows "\<exists>f. py_truediv x 4 = Inr f \<and> py_int f = trunc_div x 4"
proof (cases "x = 0")
  case True
  then show ?thesis by (simp add: py_truediv_def py_int_def trunc_div_def)
next
  case False
  define e where "e = float_exponent x 4"
  have e: "e \<le> - 2" unfolding e_def using assms by (rule float_exponent_4)
  define p where "p = nat (- e) - 2"
  have pe: "nat (- e) = p + 2" using e by (simp add: p_def)
  have pow: "(2::int) ^ nat (- e) = 4 * 2 ^ p" by (simp add: pe)
  have ne: "\<not> 0 \<le> e" using e by simp
  have pt: "py_truediv x 4 = Inr (round_div (x * 2 ^ nat (- e)) 4, e)"
    using False ne by (simp add: py_truediv_def Let_def e_def [symmetric])
  have "x * 2 ^ nat (- e) = 4 * (x * 2 ^ p)" by (simp add: pow)
  then have "round_div (x * 2 ^ nat (- e)) 4 = round_div (4 * (x * 2 ^ p)) 4"
    by (rule arg_cong)
  then have "round_div (x * 2 ^ nat (- e)) 4 = x * 2 ^ p"
    using round_div_exact [of 4 "x * 2 ^ p"] by (simp only:)
  then have pt': "py_truediv x 4 = Inr (x * 2 ^ p, e)" using pt by simp
  have "py_int (x * 2 ^ p, e) = sgn (x * 2 ^ p) * (\<bar>x * 2 ^ p\<bar> div 2 ^ nat (- e))"
    using ne by (simp add: py_int_def)
  also have "\<dots> = sgn x * (\<bar>x\<bar> * 2 ^ p div (4 * 2 ^ p))"
    by (simp add: sgn_mult abs_mult pow)
  also have "\<bar>x\<bar> * 2 ^ p div (4 * 2 ^ p) = \<bar>x\<bar> div 4"
    by (rule div_mult_mult2) simp
  finally have "py_int (x * 2 ^ p, e) = trunc_div x 4" by (simp add: trunc_div_def)
  then show ?thesis using pt' by blast
qed


section \<open>The Digishield rule\<close>

lemma get_median_time_value:
  assumes "11 \<le> x"
    and "\<forall>k. x - 11 \<le> k \<and> k < x \<longrightarrow> window_header n c ch k = Inr (w k)"
  shows "get_median_time n c x ch = Inr (median_time_spec w x)"
proof -
  have r: "py_range (max 0 (x - POW_MEDIAN_BLOCK_SPAN)) (max 1 x) = [x - 11..x - 1]"
    using assms(1) by (simp add: py_range_def POW_MEDIAN_BLOCK_SPAN_def max_def)
  have "\<forall>k \<in> set [x - 11..x - 1]. window_header n c ch k = Inr (w k)"
    using assms(2) by simp
  from efold_timestamps [OF this, of "[]"]
  have e: "efold (\<lambda>h median. ebind (window_header n c ch h) (\<lambda>header.
                     Inr (median @ [timestamp header]))) [x - 11..x - 1] []
         = Inr (map (\<lambda>k. timestamp (w k)) [x - 11..x - 1])" by simp
  have l: "length (map (\<lambda>k. timestamp (w k)) [x - 11..x - 1]) = 11" by simp
  show ?thesis
    unfolding get_median_time_def r e
    by (simp add: ebind_def py_index_def median_time_spec_def)
qed

lemma median_time_spec_bounds:
  assumes "\<forall>k. x - 11 \<le> k \<and> k < x \<longrightarrow> lo \<le> timestamp (w k) \<and> timestamp (w k) < hi"
  shows "lo \<le> median_time_spec w x \<and> median_time_spec w x < hi"
proof -
  let ?ts = "map (\<lambda>k. timestamp (w k)) [x - 11..x - 1]"
  have "5 < length (sort ?ts)" by simp
  then have "sort ?ts ! 5 \<in> set (sort ?ts)" by (rule nth_mem)
  then have "median_time_spec w x \<in> set ?ts" by (simp add: median_time_spec_def)
  then obtain k where "x - 11 \<le> k" "k < x" "median_time_spec w x = timestamp (w k)" by auto
  then show ?thesis using assms by simp
qed

lemma digishield_target_value:
  assumes "28 \<le> h"
    and look: "\<forall>k. h - 28 \<le> k \<and> k < h \<longrightarrow> window_header n c ch k = Inr (w k)"
    and ts: "\<forall>k. h - 28 \<le> k \<and> k < h \<longrightarrow> 0 \<le> timestamp (w k) \<and> timestamp (w k) < 2 ^ 32"
    and tg: "\<forall>k. h - 17 \<le> k \<and> k < h \<longrightarrow> bits_to_target (bits (w k)) = Inr (tg k)"
  shows "digishield_target n c h ch = Inr (PyInt (digishield_spec w tg h))"
proof -
  have r: "py_range (max 0 (h - POW_AVERAGING_WINDOW)) (max 1 h) = [h - 17..h - 1]"
    using assms(1) by (simp add: py_range_def POW_AVERAGING_WINDOW_def max_def)
  have "\<forall>k \<in> set [h - 17..h - 1].
      window_header n c ch k = Inr (w k) \<and> bits_to_target (bits (w k)) = Inr (tg k)"
    using look tg by simp
  from efold_sum_targets [OF this, of 0]
  have s: "efold (\<lambda>h mean_target. ebind (window_header n c ch h) (\<lambda>header.
                     ebind (bits_to_target (bits header)) (\<lambda>tg. Inr (mean_target + tg))))
              [h - 17..h - 1] 0 = Inr (sum_list (map tg [h - 17..h - 1]))" by simp
  have m1: "get_median_time n c h ch = Inr (median_time_spec w h)"
    using assms(1) look by (intro get_median_time_value) simp_all
  have m2: "get_median_time n c (h - POW_AVERAGING_WINDOW) ch = Inr (median_time_spec w (h - 17))"
    unfolding POW_AVERAGING_WINDOW_def
    using assms(1) look by (intro get_median_time_value) simp_all
  have b1: "0 \<le> median_time_spec w h \<and> median_time_spec w h < 2 ^ 32"
    using ts by (intro median_time_spec_bounds) simp
  have b2: "0 \<le> median_time_spec w (h - 17) \<and> median_time_spec w (h - 17) < 2 ^ 32"
    using ts by (intro median_time_spec_bounds) simp
  have "\<bar>median_time_spec w h - median_time_spec w (h - 17) - 1020\<bar> < 2 ^ 53"
    using b1 b2 by (simp add: abs_less_iff)
  from py_truediv_4 [OF this] obtain f
    where f: "py_truediv (median_time_spec w h - median_time_spec w (h - 17) - 1020) 4 = Inr f"
      and i: "py_int f = trunc_div (median_time_spec w h - median_time_spec w (h - 17) - 1020) 4"
    by blast
  have a: "AVERAGING_WINDOW_TIMESPAN = 1020" "MIN_ACTUAL_TIMESPAN = 1020 * 84 div 100"
    "MAX_ACTUAL_TIMESPAN = 1020 * 132 div 100" "POW_DAMPING_FACTOR = 4"
    by (simp_all add: AVERAGING_WINDOW_TIMESPAN_def MIN_ACTUAL_TIMESPAN_def
          MAX_ACTUAL_TIMESPAN_def POW_DAMPING_FACTOR_def POW_AVERAGING_WINDOW_def
          POW_TARGET_SPACING_def POW_MAX_ADJUST_UP_def POW_MAX_ADJUST_DOWN_def)
  show ?thesis
    unfolding digishield_target_def r s m1 m2 a
    by (simp add: ebind_def f i Let_def digishield_spec_def POW_AVERAGING_WINDOW_def
          min_def max_def)
qed

text \<open>
  Claim C4. In the Digishield regime (\<open>17 < h\<close>, \<open>h\<close> not in \<open>(265983, 266000]\<close>,
  \<open>h < 765000\<close>), when the lookup of a header succeeds at every height of
  \<open>[h - 28, h - 1]\<close> (heights are not negative, so \<open>28 \<le> h\<close>), with timestamps that fit
  the 32 bits of a header and targets \<open>tg k\<close> for the \<^verbatim>\<open>bits\<close> of the headers at
  \<open>[h - 17, h - 1]\<close>, \<open>get_target\<close> returns the integer that the specification describes:
  \<open>min MAX_TARGET (mean_target // 1020 * actual)\<close> with the mean of the 17 targets, and
  the difference of the two medians damped by a quarter, truncated toward zero, and
  clamped to \<open>[856, 1346]\<close>.
\<close>

theorem get_target_digishield:
  assumes "17 < h" and "\<not> (265983 < h \<and> h \<le> 266000)" and "h < 765000" and "28 \<le> h"
    and "\<forall>k. h - 28 \<le> k \<and> k < h \<longrightarrow> window_header n c ch k = Inr (w k)"
    and "\<forall>k. h - 28 \<le> k \<and> k < h \<longrightarrow> 0 \<le> timestamp (w k) \<and> timestamp (w k) < 2 ^ 32"
    and "\<forall>k. h - 17 \<le> k \<and> k < h \<longrightarrow> bits_to_target (bits (w k)) = Inr (tg k)"
  shows "get_target n c h ch = Inr (PyInt (digishield_spec w tg h))"
proof -
  have "get_target n c h ch = digishield_target n c h ch"
    using assms(1-3)
    by (auto simp add: get_target_def POW_AVERAGING_WINDOW_def EH_EPOCH_1_END_def
          LWMA_FORK_BLOCK_def)
  then show ?thesis using digishield_target_value [OF assms(4-7)] by simp
qed

lemma bits_to_target_example: "bits_to_target 503840767 = Inr (524287 * 2 ^ 216)"
  by (simp add: bits_to_target_def drop_bit_eq_div push_bit_eq_mult)

theorem get_target_digishield_witness:
  "window_header
     \<lparr>EQUIHASH_FORK_HEIGHT = 266000, HDR_LEN = 143, HDR_LEN_FORK = 1487,
       TESTNET = False, GENESIS = [], CHECKPOINTS = [], max_checkpoint = 0\<rparr>
     (Blockchain 0 None 0 None)
     (Some \<lparr>ch_empty = False, min_height = 0, max_height = 29,
        headers_at = (\<lambda>k. Some \<lparr>version = 4, prev_block_hash = Some [], merkle_root = [],
          reserved_hash = [], timestamp = 1500000000 + 64 * k, bits = 503840767, nonce = [],
          sol_size = [], solution = [], block_height = k\<rparr>)\<rparr>) 2
   = Inr \<lparr>version = 4, prev_block_hash = Some [], merkle_root = [],
          reserved_hash = [], timestamp = 1500000128, bits = 503840767, nonce = [],
          sol_size = [], solution = [], block_height = 2\<rparr>
   \<and> get_target
     \<lparr>EQUIHASH_FORK_HEIGHT = 266000, HDR_LEN = 143, HDR_LEN_FORK = 1487,
       TESTNET = False, GENESIS = [], CHECKPOINTS = [], max_checkpoint = 0\<rparr>
     (Blockchain 0 None 0 None) 30
     (Some \<lparr>ch_empty = False, min_height = 0, max_height = 29,
        headers_at = (\<lambda>k. Some \<lparr>version = 4, prev_block_hash = Some [], merkle_root = [],
          reserved_hash = [], timestamp = 1500000000 + 64 * k, bits = 503840767, nonce = [],
          sol_size = [], solution = [], block_height = k\<rparr>)\<rparr>)
   = Inr (PyInt (524287 * 2 ^ 216 div 1020 * 1037))"
proof -
  let ?n = "\<lparr>EQUIHASH_FORK_HEIGHT = 266000, HDR_LEN = 143, HDR_LEN_FORK = 1487,
       TESTNET = False, GENESIS = [], CHECKPOINTS = [], max_checkpoint = 0\<rparr>"
  let ?c = "Blockchain 0 None 0 None"
  let ?w = "\<lambda>k::int. \<lparr>version = 4, prev_block_hash = Some [], merkle_root = [],
          reserved_hash = [], timestamp = 1500000000 + 64 * k, bits = 503840767, nonce = [],
          sol_size = [], solution = [], block_height = k\<rparr>"
  let ?ch = "Some \<lparr>ch_empty = False, min_height = 0, max_height = 29,
        headers_at = (\<lambda>k. Some (?w k))\<rparr>"
  have look: "\<forall>k. 30 - 28 \<le> k \<and> k < 30 \<longrightarrow> window_header ?n ?c ?ch k = Inr (?w k)"
    by (simp add: window_header_def read_header_def chain_height_def in_chunk_def
          chunk_get_def ebind_def)
  have ts: "\<forall>k. 30 - 28 \<le> k \<and> k < 30 \<longrightarrow> 0 \<le> timestamp (?w k) \<and> timestamp (?w k) < 2 ^ 32"
    by simp
  have tg: "\<forall>k. 30 - 17 \<le> k \<and> k < 30 \<longrightarrow>
      bits_to_target (bits (?w k)) = Inr ((\<lambda>k. 524287 * 2 ^ 216) k)"
    by (simp add: bits_to_target_example)
  have v: "digishield_spec ?w (\<lambda>k. 524287 * 2 ^ 216) 30 = 524287 * 2 ^ 216 div 1020 * 1037"
    by (simp add: digishield_spec_def median_time_spec_def trunc_div_def MAX_TARGET_def Let_def)
  have "get_target ?n ?c 30 ?ch = Inr (PyInt (digishield_spec ?w (\<lambda>k. 524287 * 2 ^ 216) 30))"
    using look ts tg by (intro get_target_digishield) simp_all
  then show ?thesis using look v by simp
qed

section \<open>The store and the headers in flight\<close>





















end
